theory Spec2Isabelle
  imports Main
begin

section \<open>Time\<close>

text \<open>
  A Go \<open>time.Time\<close> is modelled by its number of nanoseconds since the Unix epoch and a
  \<open>time.Duration\<close> by its number of nanoseconds. The jobs database stores timestamps as
  integer seconds: \<open>t.Unix()\<close> rounds down, \<open>time.Unix(sec, 0)\<close> converts back.
\<close>

type_synonym Time = int
type_synonym Duration = int

definition Second :: Duration where
  "Second = 1000000000"

definition Minute :: Duration where
  "Minute = 60 * Second"

definition Unix :: "Time \<Rightarrow> int" where
  "Unix t = t div Second"

definition time_Unix :: "int \<Rightarrow> Time" where
  "time_Unix sec = sec * Second"

section \<open>Data model (internal/models)\<close>

datatype JobStatus = StatusPending | StatusRunning | StatusDone | StatusFailed

text \<open>
  The Go struct \<open>models.Job\<close>; an absent idempotency key is the empty string. Go's
  \<open>int\<close> and SQLite's INTEGER have 64 bits; retry counts, limits and Unix times stay far
  from those bounds and are unbounded integers here. \<open>JobStatus\<close> is a string type
  in Go of which the code uses the four constants only.
\<close>

record Job =
  ID :: string
  TenantID :: string
  IdempotencyKey :: string
  Payload :: string
  Status :: JobStatus
  MaxRetries :: int
  RetryCount :: int
  LeasedAt :: "Time option"
  LeaseExpiresAt :: "Time option"
  CreatedAt :: Time
  UpdatedAt :: Time

record CreateJobRequest =
  req_TenantID :: string
  req_IdempotencyKey :: string
  req_Payload :: string
  req_MaxRetries :: "int option"

section \<open>The SQLite schema (initSchema)\<close>

text \<open>
  A row of table \<open>jobs\<close>. Column \<open>id\<close> is \<open>j_id\<close> here; the nullable columns are options.
\<close>

record JobRow =
  j_id :: string
  tenant_id :: string
  idempotency_key :: "string option"
  payload :: string
  status :: JobStatus
  max_retries :: int
  retry_count :: int
  leased_at :: "int option"
  lease_expires_at :: "int option"
  created_at :: int
  updated_at :: int

text \<open>A row of table \<open>dead_letter_jobs\<close> (columns id, job_id, tenant_id, payload, ...).\<close>

record DLQRow =
  d_id :: string
  job_id :: string
  d_tenant_id :: string
  d_payload :: string
  failure_reason :: string
  failed_at :: int

text \<open>The database: both tables, rows in insertion order.\<close>

record Store =
  jobs :: "JobRow list"
  dead_letter_jobs :: "DLQRow list"

section \<open>Errors\<close>

text \<open>
  Go \<open>error\<close> values. \<open>ErrUniqueConstraint\<close> is the driver's
  "UNIQUE constraint failed: ..." and \<open>ErrIO\<close> any other failure of a database call.
  \<open>Wrapf m e\<close> is \<open>fmt.Errorf(m + ": %w", e)\<close>, \<open>Errorf m\<close> is \<open>fmt.Errorf(m)\<close>.
\<close>

datatype Err =
    ErrDuplicateIdempotencyKey string string
  | ErrRateLimitExceeded
  | ErrJobNotFound
  | ErrNoRows
  | ErrUniqueConstraint
  | ErrIO
  | Errorf string
  | Wrapf string Err

section \<open>SQLiteRepository (internal/repository/sqlite_repository.go)\<close>

text \<open>
  Whether a database call hits an I/O error is an input of each operation: a flag for an
  operation of one statement, the failing step for a transaction.
\<close>

text \<open>
  \<open>INSERT INTO jobs\<close> under \<open>id TEXT PRIMARY KEY\<close> and
  \<open>UNIQUE(tenant_id, idempotency_key)\<close>; SQLite lets NULL keys repeat.
\<close>

definition insert_job :: "JobRow \<Rightarrow> JobRow list \<Rightarrow> Err + JobRow list" where
  "insert_job r rows =
     (if \<exists>q \<in> set rows. j_id q = j_id r then Inl ErrUniqueConstraint
      else if idempotency_key r \<noteq> None \<and>
              (\<exists>q \<in> set rows. tenant_id q = tenant_id r \<and> idempotency_key q = idempotency_key r)
           then Inl ErrUniqueConstraint
      else Inr (rows @ [r]))"

definition CreateJob :: "bool \<Rightarrow> Time \<Rightarrow> Job \<Rightarrow> Store \<Rightarrow> Err option \<times> Job \<times> Store" where
  "CreateJob exec_fails now job0 s =
     (let job = job0\<lparr>CreatedAt := now, UpdatedAt := now\<rparr>;
          idempotencyKey = (if IdempotencyKey job = [] then None else Some (IdempotencyKey job));
          row = \<lparr>j_id = ID job, tenant_id = TenantID job, idempotency_key = idempotencyKey,
                 payload = Payload job, status = Status job, max_retries = MaxRetries job,
                 retry_count = RetryCount job, leased_at = None, lease_expires_at = None,
                 created_at = Unix (CreatedAt job), updated_at = Unix (UpdatedAt job)\<rparr>
      in case (if exec_fails then Inl ErrIO else insert_job row (jobs s)) of
           Inl err \<Rightarrow>
             if err = ErrUniqueConstraint then
               if IdempotencyKey job \<noteq> []
               then (Some (ErrDuplicateIdempotencyKey (TenantID job) (IdempotencyKey job)), job, s)
               else (Some (Errorf ''failed to create job: unique constraint violation (unexpected)''),
                     job, s)
             else (Some (Wrapf ''failed to create job'' err), job, s)
         | Inr rows' \<Rightarrow> (None, job, s\<lparr>jobs := rows'\<rparr>))"

text \<open>Scanning a row into a \<open>models.Job\<close>, as GetJobByID and its siblings do.\<close>

definition scan_job :: "JobRow \<Rightarrow> Job" where
  "scan_job r =
     \<lparr>ID = j_id r, TenantID = tenant_id r,
      IdempotencyKey = (case idempotency_key r of None \<Rightarrow> [] | Some k \<Rightarrow> k),
      Payload = payload r, Status = status r, MaxRetries = max_retries r,
      RetryCount = retry_count r,
      LeasedAt = map_option time_Unix (leased_at r),
      LeaseExpiresAt = map_option time_Unix (lease_expires_at r),
      CreatedAt = time_Unix (created_at r), UpdatedAt = time_Unix (updated_at r)\<rparr>"

definition GetJobByID :: "bool \<Rightarrow> string \<Rightarrow> Store \<Rightarrow> Err + Job" where
  "GetJobByID query_fails i s =
     (if query_fails then Inl (Wrapf ''failed to get job'' ErrIO)
      else case find (\<lambda>r. j_id r = i) (jobs s) of
             None \<Rightarrow> Inl ErrNoRows
           | Some r \<Rightarrow> Inr (scan_job r))"

definition GetJobByTenantAndIdempotencyKey ::
  "bool \<Rightarrow> string \<Rightarrow> string \<Rightarrow> Store \<Rightarrow> Err + Job option" where
  "GetJobByTenantAndIdempotencyKey query_fails tenantID idempotencyKey s =
     (if query_fails then Inl (Wrapf ''failed to get job'' ErrIO)
      else case find (\<lambda>r. tenant_id r = tenantID \<and>
                         (if idempotencyKey = [] then idempotency_key r = None
                          else idempotency_key r = Some idempotencyKey)) (jobs s) of
             None \<Rightarrow> Inr None
           | Some r \<Rightarrow> Inr (Some (scan_job r)))"

text \<open>
  The WHERE clause of LeaseJob's SELECT; a comparison with a NULL \<open>lease_expires_at\<close>
  is not true.
\<close>

definition leasable :: "int \<Rightarrow> JobRow \<Rightarrow> bool" where
  "leasable nowUnix r \<longleftrightarrow>
     status r = StatusPending \<or>
     (status r = StatusRunning \<and>
      (case lease_expires_at r of None \<Rightarrow> False | Some e \<Rightarrow> e < nowUnix))"

text \<open>
  \<open>ORDER BY created_at ASC LIMIT 1\<close>: one of the rows of least \<open>created_at\<close>. SQL
  leaves open which row comes first among equal \<open>created_at\<close>; the choice is an
  input of the query here (\<open>tie\<close>), like the clock reading.
\<close>

definition oldest_rows :: "JobRow list \<Rightarrow> JobRow list" where
  "oldest_rows rs = filter (\<lambda>r. \<forall>q \<in> set rs. created_at r \<le> created_at q) rs"

definition oldest :: "nat \<Rightarrow> JobRow list \<Rightarrow> JobRow option" where
  "oldest tie rs =
     (let cs = oldest_rows rs in if cs = [] then None else Some (cs ! (tie mod length cs)))"

datatype LeaseFault = LeaseBeginTx | LeaseSelect | LeaseUpdate | LeaseCommit

definition LeaseJob ::
  "LeaseFault option \<Rightarrow> nat \<Rightarrow> Time \<Rightarrow> Duration \<Rightarrow> Store \<Rightarrow> (Err + Job option) \<times> Store" where
  "LeaseJob io tie now leaseDuration s =
     (if io = Some LeaseBeginTx then (Inl (Wrapf ''failed to begin transaction'' ErrIO), s)
      else
        let nowUnix = Unix now;
            expiresAt = now + leaseDuration;
            expiresAtUnix = Unix expiresAt
        in if io = Some LeaseSelect then (Inl (Wrapf ''failed to find leasable job'' ErrIO), s)
           else case oldest tie (filter (leasable nowUnix) (jobs s)) of
                  None \<Rightarrow> (Inr None, s)
                | Some r \<Rightarrow>
                    let job = (scan_job r)\<lparr>LeaseExpiresAt := None\<rparr>;
                        tx = map (\<lambda>q. if j_id q = ID job
                                       then q\<lparr>status := StatusRunning,
                                              leased_at := Some nowUnix,
                                              lease_expires_at := Some expiresAtUnix,
                                              updated_at := nowUnix\<rparr>
                                       else q) (jobs s)
                    in if io = Some LeaseUpdate
                       then (Inl (Wrapf ''failed to update job lease'' ErrIO), s)
                       else if io = Some LeaseCommit
                       then (Inl (Wrapf ''failed to commit transaction'' ErrIO), s)
                       else (Inr (Some (job\<lparr>Status := StatusRunning,
                                             LeasedAt := Some now,
                                             LeaseExpiresAt := Some expiresAt,
                                             UpdatedAt := now\<rparr>)),
                             s\<lparr>jobs := tx\<rparr>))"

definition UpdateJobStatus ::
  "bool \<Rightarrow> Time \<Rightarrow> string \<Rightarrow> JobStatus \<Rightarrow> Store \<Rightarrow> Err option \<times> Store" where
  "UpdateJobStatus exec_fails now i st s =
     (if exec_fails then (Some (Wrapf ''failed to update job status'' ErrIO), s)
      else (None, s\<lparr>jobs := map (\<lambda>q. if j_id q = i
                                       then q\<lparr>status := st, updated_at := Unix now\<rparr>
                                       else q) (jobs s)\<rparr>))"

definition IncrementRetryCount ::
  "bool \<Rightarrow> Time \<Rightarrow> string \<Rightarrow> Store \<Rightarrow> Err option \<times> Store" where
  "IncrementRetryCount exec_fails now i s =
     (if exec_fails then (Some (Wrapf ''failed to increment retry count'' ErrIO), s)
      else (None, s\<lparr>jobs := map (\<lambda>q. if j_id q = i
                                       then q\<lparr>retry_count := retry_count q + 1,
                                              updated_at := Unix now\<rparr>
                                       else q) (jobs s)\<rparr>))"

definition GetRunningJobsCountByTenant :: "bool \<Rightarrow> string \<Rightarrow> Store \<Rightarrow> Err + int" where
  "GetRunningJobsCountByTenant query_fails tenantID s =
     (if query_fails then Inl (Wrapf ''failed to count running jobs'' ErrIO)
      else Inr (int (length (filter (\<lambda>r. tenant_id r = tenantID \<and> status r = StatusRunning)
                                    (jobs s)))))"

text \<open>\<open>fmt.Sprintf("%d", n)\<close>.\<close>

fun fmt_nat :: "nat \<Rightarrow> string" where
  "fmt_nat n = (if n < 10 then [''0123456789'' ! n]
                else fmt_nat (n div 10) @ [''0123456789'' ! (n mod 10)])"

declare fmt_nat.simps [simp del]

definition fmt_d :: "int \<Rightarrow> string" where
  "fmt_d n = (if n < 0 then CHR ''-'' # fmt_nat (nat (- n)) else fmt_nat (nat n))"

datatype MoveFault = MoveBeginTx | MoveInsert | MoveDelete | MoveCommit

text \<open>
  The transaction works on \<open>tx\<close>; the deferred Rollback leaves \<open>s\<close> as it was on every
  error path. The clock is read twice: for the DLQ id and for \<open>failed_at\<close>.
  \<open>dead_letter_jobs.id\<close> is a primary key, so inserting a taken id fails.
\<close>

definition MoveToDeadLetterQueue ::
  "MoveFault option \<Rightarrow> Time \<Rightarrow> Time \<Rightarrow> Job \<Rightarrow> string \<Rightarrow> Store \<Rightarrow> Err option \<times> Store" where
  "MoveToDeadLetterQueue io now_id now_failed job failureReason s =
     (if io = Some MoveBeginTx then (Some (Wrapf ''failed to begin transaction'' ErrIO), s)
      else
        let dlqID = ''dlq_'' @ ID job @ ''_'' @ fmt_d (Unix now_id);
            row = \<lparr>d_id = dlqID, job_id = ID job, d_tenant_id = TenantID job,
                   d_payload = Payload job, failure_reason = failureReason,
                   failed_at = Unix now_failed\<rparr>
        in if io = Some MoveInsert
           then (Some (Wrapf ''failed to insert into dead letter queue'' ErrIO), s)
           else if \<exists>q \<in> set (dead_letter_jobs s). d_id q = dlqID
           then (Some (Wrapf ''failed to insert into dead letter queue'' ErrUniqueConstraint), s)
           else
             let tx = s\<lparr>dead_letter_jobs := dead_letter_jobs s @ [row]\<rparr>
             in if io = Some MoveDelete then (Some (Wrapf ''failed to delete job'' ErrIO), s)
                else
                  let tx' = tx\<lparr>jobs := filter (\<lambda>q. j_id q \<noteq> ID job) (jobs tx)\<rparr>
                  in if io = Some MoveCommit
                     then (Some (Wrapf ''failed to commit transaction'' ErrIO), s)
                     else (None, tx'))"

section \<open>Metrics (internal/metrics)\<close>

record Metrics =
  totalJobs :: int
  completedJobs :: int
  failedJobs :: int
  retriedJobs :: int

definition NewMetrics :: Metrics where
  "NewMetrics = \<lparr>totalJobs = 0, completedJobs = 0, failedJobs = 0, retriedJobs = 0\<rparr>"

definition IncrementTotalJobs :: "Metrics \<Rightarrow> Metrics" where
  "IncrementTotalJobs m = m\<lparr>totalJobs := totalJobs m + 1\<rparr>"

definition IncrementCompletedJobs :: "Metrics \<Rightarrow> Metrics" where
  "IncrementCompletedJobs m = m\<lparr>completedJobs := completedJobs m + 1\<rparr>"

definition IncrementFailedJobs :: "Metrics \<Rightarrow> Metrics" where
  "IncrementFailedJobs m = m\<lparr>failedJobs := failedJobs m + 1\<rparr>"

definition IncrementRetriedJobs :: "Metrics \<Rightarrow> Metrics" where
  "IncrementRetriedJobs m = m\<lparr>retriedJobs := retriedJobs m + 1\<rparr>"

section \<open>RateLimiter (internal/service/rate_limiter.go)\<close>

record submissionWindow =
  count :: int
  windowEnd :: Time

record RateLimiter =
  maxConcurrentRunning :: int
  maxSubmissionsPerMinute :: int
  submissionWindows :: "string \<rightharpoonup> submissionWindow"

definition NewRateLimiter :: "int \<Rightarrow> int \<Rightarrow> RateLimiter" where
  "NewRateLimiter maxConcurrent maxSubmissions =
     \<lparr>maxConcurrentRunning = maxConcurrent, maxSubmissionsPerMinute = maxSubmissions,
      submissionWindows = Map.empty\<rparr>"

definition CheckConcurrentLimit :: "RateLimiter \<Rightarrow> string \<Rightarrow> int \<Rightarrow> Err option" where
  "CheckConcurrentLimit rl tenantID currentRunning =
     (if currentRunning \<ge> maxConcurrentRunning rl then Some ErrRateLimitExceeded else None)"

text \<open>\<open>now.After(window.windowEnd)\<close> is the strict \<open>now > windowEnd\<close>.\<close>

definition CheckSubmissionRate :: "Time \<Rightarrow> string \<Rightarrow> RateLimiter \<Rightarrow> Err option \<times> RateLimiter" where
  "CheckSubmissionRate now tenantID rl =
     (let fresh = rl\<lparr>submissionWindows := (submissionWindows rl)
                        (tenantID \<mapsto> \<lparr>count = 1, windowEnd = now + 1 * Minute\<rparr>)\<rparr>
      in case submissionWindows rl tenantID of
           None \<Rightarrow> (None, fresh)
         | Some window \<Rightarrow>
             if now > windowEnd window then (None, fresh)
             else if count window \<ge> maxSubmissionsPerMinute rl
             then (Some ErrRateLimitExceeded, rl)
             else (None, rl\<lparr>submissionWindows := (submissionWindows rl)
                               (tenantID \<mapsto> window\<lparr>count := count window + 1\<rparr>)\<rparr>))"

section \<open>JobService.CreateJob (internal/service/job_service.go)\<close>

record JobService =
  repo :: Store
  rateLimiter :: RateLimiter
  metrics :: Metrics

text \<open>
  What the outside world answers during one call of CreateJob: the clock readings, the
  generated UUID, and which database calls fail.
\<close>

record CreateJobEnv =
  rate_now :: Time
  lookup_fails :: bool
  count_fails :: bool
  uuid_New :: string
  create_now :: Time
  create_fails :: bool
  refetch_fails :: bool

text \<open>The zero \<open>time.Time\<close> (1 January of year 1, UTC).\<close>

definition zeroTime :: Time where
  "zeroTime = - 62135596800 * Second"

text \<open>The type assertion \<open>err.(*repository.ErrDuplicateIdempotencyKey)\<close>.\<close>

fun asDuplicate :: "Err \<Rightarrow> (string \<times> string) option" where
  "asDuplicate (ErrDuplicateIdempotencyKey t k) = Some (t, k)"
| "asDuplicate _ = None"

text \<open>
  CreateJob in two parts: the admission checks with the construction of the job, and
  the final block around \<open>s.repo.CreateJob\<close> (\<open>JobService_CreateJob_insert\<close>).
\<close>

definition JobService_CreateJob_insert ::
  "CreateJobEnv \<Rightarrow> Job \<Rightarrow> JobService \<Rightarrow> (Err + Job) \<times> JobService" where
  "JobService_CreateJob_insert env job0 svc =
     (case CreateJob (create_fails env) (create_now env) job0 (repo svc) of
        (res, job, s') \<Rightarrow>
          (case res of
             None \<Rightarrow> (Inr job, svc\<lparr>repo := s', metrics := IncrementTotalJobs (metrics svc)\<rparr>)
           | Some err \<Rightarrow>
               (case asDuplicate err of
                  Some (t, k) \<Rightarrow>
                    (case GetJobByTenantAndIdempotencyKey (refetch_fails env) t k s' of
                       Inl fetchErr \<Rightarrow>
                         (Inl (Wrapf ''failed to fetch existing job'' fetchErr), svc\<lparr>repo := s'\<rparr>)
                     | Inr found \<Rightarrow>
                         (case found of
                            Some existing \<Rightarrow> (Inr existing, svc\<lparr>repo := s'\<rparr>)
                          | None \<Rightarrow> (Inl (Wrapf ''failed to create job'' err), svc\<lparr>repo := s'\<rparr>)))
                | None \<Rightarrow> (Inl (Wrapf ''failed to create job'' err), svc\<lparr>repo := s'\<rparr>))))"

definition JobService_CreateJob ::
  "CreateJobEnv \<Rightarrow> CreateJobRequest \<Rightarrow> JobService \<Rightarrow> (Err + Job) \<times> JobService" where
  "JobService_CreateJob env req svc0 =
     (case CheckSubmissionRate (rate_now env) (req_TenantID req) (rateLimiter svc0) of
        (res, rl) \<Rightarrow>
          let svc = svc0\<lparr>rateLimiter := rl\<rparr> in
          (case res of
             Some err \<Rightarrow> (Inl err, svc)
           | None \<Rightarrow>
               (case (if req_IdempotencyKey req \<noteq> []
                      then GetJobByTenantAndIdempotencyKey (lookup_fails env)
                             (req_TenantID req) (req_IdempotencyKey req) (repo svc)
                      else Inr None) of
                  Inl err \<Rightarrow> (Inl (Wrapf ''failed to check idempotency'' err), svc)
                | Inr (Some existing) \<Rightarrow> (Inr existing, svc)
                | Inr None \<Rightarrow>
                    (case GetRunningJobsCountByTenant (count_fails env) (req_TenantID req)
                            (repo svc) of
                       Inl err \<Rightarrow> (Inl (Wrapf ''failed to get running jobs count'' err), svc)
                     | Inr runningCount \<Rightarrow>
                         (case CheckConcurrentLimit (rateLimiter svc) (req_TenantID req)
                                 runningCount of
                            Some err \<Rightarrow> (Inl err, svc)
                          | None \<Rightarrow>
                              let maxRetries = (case req_MaxRetries req of
                                                  None \<Rightarrow> 3 | Some m \<Rightarrow> m)
                              in JobService_CreateJob_insert env
                                   \<lparr>ID = uuid_New env, TenantID = req_TenantID req,
                                    IdempotencyKey = req_IdempotencyKey req,
                                    Payload = req_Payload req, Status = StatusPending,
                                    MaxRetries = maxRetries, RetryCount = 0,
                                    LeasedAt = None, LeaseExpiresAt = None,
                                    CreatedAt = zeroTime, UpdatedAt = zeroTime\<rparr>
                                   svc)))))"

section \<open>WorkerService (internal/service/worker_service.go)\<close>

record WorkerService =
  w_repo :: Store
  w_metrics :: Metrics

text \<open>The clock readings and database failures met while one job is processed.\<close>

record ProcessEnv =
  retry_fails :: bool
  retry_now :: Time
  status_fails :: bool
  status_now :: Time
  move_fault :: "MoveFault option"
  move_now_id :: Time
  move_now_failed :: Time

definition handleJobFailure :: "ProcessEnv \<Rightarrow> Job \<Rightarrow> string \<Rightarrow> WorkerService \<Rightarrow> WorkerService" where
  "handleJobFailure env job failureReason w =
     (if RetryCount job < MaxRetries job then
        (case IncrementRetryCount (retry_fails env) (retry_now env) (ID job) (w_repo w) of
           (err, s) \<Rightarrow>
             if err \<noteq> None then w\<lparr>w_repo := s\<rparr>
             else
               (case UpdateJobStatus (status_fails env) (status_now env) (ID job)
                       StatusPending s of
                  (err', s') \<Rightarrow>
                    if err' \<noteq> None then w\<lparr>w_repo := s'\<rparr>
                    else w\<lparr>w_repo := s', w_metrics := IncrementRetriedJobs (w_metrics w)\<rparr>))
      else
        (case MoveToDeadLetterQueue (move_fault env) (move_now_id env) (move_now_failed env) job
                (''max retries exceeded: '' @ failureReason) (w_repo w) of
           (err, s) \<Rightarrow>
             if err \<noteq> None then w\<lparr>w_repo := s\<rparr>
             else w\<lparr>w_repo := s, w_metrics := IncrementFailedJobs (w_metrics w)\<rparr>))"

text \<open>The reason the built-in handler gives: \<^verbatim>\<open>payload is 'fail'\<close>.\<close>

definition payload_is_fail :: string where
  "payload_is_fail = ''payload is '' @ [CHR 0x27] @ ''fail'' @ [CHR 0x27]"

definition processJob :: "ProcessEnv \<Rightarrow> Job \<Rightarrow> WorkerService \<Rightarrow> WorkerService" where
  "processJob env job w =
     (if Payload job = ''fail'' then handleJobFailure env job payload_is_fail w
      else
        (case UpdateJobStatus (status_fails env) (status_now env) (ID job) StatusDone (w_repo w) of
           (err, s) \<Rightarrow>
             if err \<noteq> None then w\<lparr>w_repo := s\<rparr>
             else w\<lparr>w_repo := s, w_metrics := IncrementCompletedJobs (w_metrics w)\<rparr>))"

text \<open>One round of the loop of ProcessJobs: lease, and process what was leased.\<close>

definition ProcessJobs_round ::
  "LeaseFault option \<Rightarrow> nat \<Rightarrow> Time \<Rightarrow> Duration \<Rightarrow> ProcessEnv \<Rightarrow> WorkerService \<Rightarrow>
   WorkerService" where
  "ProcessJobs_round io tie now leaseDuration env w =
     (case LeaseJob io tie now leaseDuration (w_repo w) of
        (res, s) \<Rightarrow>
          (case res of
             Inl err \<Rightarrow> w\<lparr>w_repo := s\<rparr>
           | Inr leased \<Rightarrow>
               (case leased of
                  None \<Rightarrow> w\<lparr>w_repo := s\<rparr>
                | Some job \<Rightarrow> processJob env job (w\<lparr>w_repo := s\<rparr>))))"

section \<open>Invariants and reachable stores\<close>

text \<open>A job id is live once: no id of table jobs is the job_id of a dead-letter row.\<close>

definition live_once :: "Store \<Rightarrow> bool" where
  "live_once s \<longleftrightarrow> j_id ` set (jobs s) \<inter> job_id ` set (dead_letter_jobs s) = {}"

text \<open>
  The invariant of table jobs: ids are distinct (\<open>id\<close> is the primary key) and every
  row has \<open>0 \<le> retry_count \<le> max_retries\<close>.
\<close>

definition retry_inv :: "Store \<Rightarrow> bool" where
  "retry_inv s \<longleftrightarrow>
     distinct (map j_id (jobs s)) \<and>
     (\<forall>r \<in> set (jobs s). 0 \<le> retry_count r \<and> retry_count r \<le> max_retries r)"

text \<open>
  The stores that any interleaving of submissions and of any number of workers can reach
  from the empty database, with the job snapshots that leases have handed out so far
  (\<open>L\<close>). Each repository call is one SQLite statement or transaction, so a step is one
  call: CreateJob as JobService.CreateJob makes it, LeaseJob, and the three writes a
  worker makes for a job it was handed (UpdateJobStatus, IncrementRetryCount,
  MoveToDeadLetterQueue), also long after the lease has expired and with other calls in
  between. Clock readings, failures, limiter state and generated ids are arbitrary.
\<close>

inductive reachable :: "Store \<Rightarrow> Job set \<Rightarrow> bool" where
  start: "reachable \<lparr>jobs = [], dead_letter_jobs = []\<rparr> {}"
| submit: "reachable (repo svc) L \<Longrightarrow> reachable (repo (snd (JobService_CreateJob env req svc))) L"
| lease: "reachable s L \<Longrightarrow> LeaseJob io tie now d s = (Inr (Some job), s') \<Longrightarrow>
          reachable s' (insert job L)"
| set_status: "reachable s L \<Longrightarrow> job \<in> L \<Longrightarrow>
               reachable (snd (UpdateJobStatus f now (ID job) st s)) L"
| bump_retry: "reachable s L \<Longrightarrow> job \<in> L \<Longrightarrow>
               reachable (snd (IncrementRetryCount f now (ID job) s)) L"
| move: "reachable s L \<Longrightarrow> job \<in> L \<Longrightarrow>
         reachable (snd (MoveToDeadLetterQueue io now_id now_failed job reason s)) L"

section \<open>Example states\<close>

text \<open>Concrete stores, requests and environments on which the results below are run.\<close>

definition ex_row :: JobRow where
  "ex_row = \<lparr>j_id = ''a'', tenant_id = ''t'', idempotency_key = Some ''k1'', payload = ''A'',
             status = StatusPending, max_retries = 3, retry_count = 0, leased_at = None,
             lease_expires_at = None, created_at = 10, updated_at = 10\<rparr>"

definition ex_store :: Store where
  "ex_store = \<lparr>jobs = [ex_row], dead_letter_jobs = []\<rparr>"

definition ex_svc :: JobService where
  "ex_svc = \<lparr>repo = ex_store, rateLimiter = NewRateLimiter 5 10, metrics = NewMetrics\<rparr>"

definition ex_env :: CreateJobEnv where
  "ex_env = \<lparr>rate_now = 20 * Second, lookup_fails = False, count_fails = False,
             uuid_New = ''b'', create_now = 20 * Second, create_fails = False,
             refetch_fails = False\<rparr>"

definition ex_req :: CreateJobRequest where
  "ex_req = \<lparr>req_TenantID = ''t'', req_IdempotencyKey = ''k1'', req_Payload = ''B'',
             req_MaxRetries = None\<rparr>"

definition rl_full :: RateLimiter where
  "rl_full = \<lparr>maxConcurrentRunning = 5, maxSubmissionsPerMinute = 2,
      submissionWindows = [''t'' \<mapsto> \<lparr>count = 2, windowEnd = 100\<rparr>]\<rparr>"

definition row_b :: JobRow where
  "row_b = \<lparr>j_id = ''b'', tenant_id = ''t'', idempotency_key = None, payload = ''work'',
            status = StatusRunning, max_retries = 3, retry_count = 1, leased_at = Some 5,
            lease_expires_at = Some 15, created_at = 5, updated_at = 5\<rparr>"

definition row_c :: JobRow where
  "row_c = \<lparr>j_id = ''c'', tenant_id = ''u'', idempotency_key = None, payload = ''fail'',
            status = StatusRunning, max_retries = 0, retry_count = 0, leased_at = Some 18,
            lease_expires_at = Some 48, created_at = 1, updated_at = 18\<rparr>"

definition lease_store :: Store where
  "lease_store = \<lparr>jobs = [ex_row, row_b, row_c], dead_letter_jobs = []\<rparr>"

definition job_c :: Job where
  "job_c = \<lparr>ID = ''c'', TenantID = ''u'', IdempotencyKey = [], Payload = ''fail'',
            Status = StatusRunning, MaxRetries = 0, RetryCount = 0,
            LeasedAt = Some (18 * Second), LeaseExpiresAt = Some (48 * Second),
            CreatedAt = time_Unix 1, UpdatedAt = 18 * Second\<rparr>"

definition row_f :: JobRow where
  "row_f = \<lparr>j_id = ''f'', tenant_id = ''u'', idempotency_key = None, payload = ''fail'',
            status = StatusRunning, max_retries = 2, retry_count = 0, leased_at = Some 19,
            lease_expires_at = Some 49, created_at = 2, updated_at = 19\<rparr>"

definition worker0 :: WorkerService where
  "worker0 = \<lparr>w_repo = \<lparr>jobs = [row_b, row_c, row_f], dead_letter_jobs = []\<rparr>,
               w_metrics = NewMetrics\<rparr>"

definition job_b :: Job where
  "job_b = \<lparr>ID = ''b'', TenantID = ''t'', IdempotencyKey = [], Payload = ''work'',
            Status = StatusRunning, MaxRetries = 3, RetryCount = 1,
            LeasedAt = Some (20 * Second), LeaseExpiresAt = Some (50 * Second),
            CreatedAt = time_Unix 5, UpdatedAt = 20 * Second\<rparr>"

definition job_f :: Job where
  "job_f = \<lparr>ID = ''f'', TenantID = ''u'', IdempotencyKey = [], Payload = ''fail'',
            Status = StatusRunning, MaxRetries = 2, RetryCount = 0,
            LeasedAt = Some (19 * Second), LeaseExpiresAt = Some (49 * Second),
            CreatedAt = time_Unix 2, UpdatedAt = 19 * Second\<rparr>"

definition penv :: ProcessEnv where
  "penv = \<lparr>retry_fails = False, retry_now = 22 * Second, status_fails = False,
            status_now = 23 * Second, move_fault = None, move_now_id = 24 * Second,
            move_now_failed = 25 * Second\<rparr>"

definition worker1 :: WorkerService where
  "worker1 = \<lparr>w_repo = ex_store, w_metrics = NewMetrics\<rparr>"

definition svc0 :: JobService where
  "svc0 = \<lparr>repo = \<lparr>jobs = [], dead_letter_jobs = []\<rparr>, rateLimiter = NewRateLimiter 5 10,
            metrics = NewMetrics\<rparr>"

definition zero_req :: CreateJobRequest where
  "zero_req = \<lparr>req_TenantID = ''u'', req_IdempotencyKey = [], req_Payload = ''fail'',
               req_MaxRetries = Some 0\<rparr>"

definition neg_req :: CreateJobRequest where
  "neg_req = \<lparr>req_TenantID = ''t'', req_IdempotencyKey = [], req_Payload = ''p'',
              req_MaxRetries = Some (- 1)\<rparr>"

definition dup_job :: Job where
  "dup_job = \<lparr>ID = ''a'', TenantID = ''t'', IdempotencyKey = ''k2'', Payload = ''B'',
              Status = StatusPending, MaxRetries = 3, RetryCount = 0,
              LeasedAt = None, LeaseExpiresAt = None,
              CreatedAt = zeroTime, UpdatedAt = zeroTime\<rparr>"

definition one_req :: CreateJobRequest where
  "one_req = \<lparr>req_TenantID = ''u'', req_IdempotencyKey = [], req_Payload = ''fail'',
              req_MaxRetries = Some 1\<rparr>"

definition one_env :: CreateJobEnv where
  "one_env = \<lparr>rate_now = 1 * Second, lookup_fails = False, count_fails = False,
              uuid_New = ''j'', create_now = 1 * Second, create_fails = False,
              refetch_fails = False\<rparr>"

definition fail_store :: Store where
  "fail_store =
     \<lparr>jobs = [\<lparr>j_id = ''j'', tenant_id = ''u'', idempotency_key = None, payload = ''fail'',
               status = StatusPending, max_retries = 1, retry_count = 0, leased_at = None,
               lease_expires_at = None, created_at = 1, updated_at = 1\<rparr>],
      dead_letter_jobs = []\<rparr>"

definition snapshot_A :: Job where
  "snapshot_A = \<lparr>ID = ''j'', TenantID = ''u'', IdempotencyKey = [], Payload = ''fail'',
                 Status = StatusRunning, MaxRetries = 1, RetryCount = 0,
                 LeasedAt = Some (10 * Second), LeaseExpiresAt = Some (40 * Second),
                 CreatedAt = time_Unix 1, UpdatedAt = 10 * Second\<rparr>"

definition snapshot_B :: Job where
  "snapshot_B = \<lparr>ID = ''j'', TenantID = ''u'', IdempotencyKey = [], Payload = ''fail'',
                 Status = StatusRunning, MaxRetries = 1, RetryCount = 0,
                 LeasedAt = Some (41 * Second), LeaseExpiresAt = Some (71 * Second),
                 CreatedAt = time_Unix 1, UpdatedAt = 41 * Second\<rparr>"

definition late_env :: ProcessEnv where
  "late_env = \<lparr>retry_fails = False, retry_now = 42 * Second, status_fails = False,
               status_now = 43 * Second, move_fault = None, move_now_id = 44 * Second,
               move_now_failed = 45 * Second\<rparr>"

definition key_job :: Job where
  "key_job = \<lparr>ID = ''b'', TenantID = ''t'', IdempotencyKey = ''k1'', Payload = ''B'',
              Status = StatusPending, MaxRetries = 3, RetryCount = 0,
              LeasedAt = None, LeaseExpiresAt = None,
              CreatedAt = zeroTime, UpdatedAt = zeroTime\<rparr>"

definition keyless_job :: Job where
  "keyless_job = \<lparr>ID = ''n2'', TenantID = ''t'', IdempotencyKey = [], Payload = ''C'',
              Status = StatusPending, MaxRetries = 3, RetryCount = 0,
              LeasedAt = None, LeaseExpiresAt = None,
              CreatedAt = zeroTime, UpdatedAt = zeroTime\<rparr>"

definition keyless_store :: Store where
  "keyless_store =
     \<lparr>jobs = [ex_row,
              \<lparr>j_id = ''n1'', tenant_id = ''t'', idempotency_key = None, payload = ''C'',
               status = StatusPending, max_retries = 3, retry_count = 0, leased_at = None,
               lease_expires_at = None, created_at = 11, updated_at = 11\<rparr>],
      dead_letter_jobs = []\<rparr>"

section \<open>Writes to a missing row\<close>

lemma update_absent_id:
  "i \<notin> j_id ` set rows \<Longrightarrow> map (\<lambda>q. if j_id q = i then g q else q) rows = rows"
  by (induction rows) auto

text \<open>
  C9. For an id that no row of table jobs carries, UpdateJobStatus and IncrementRetryCount
  leave the store as it is, and unless the database call itself fails they return no
  error: there is no row-exists check and no NotFound.
\<close>

theorem C9_missing_row_is_silent_noop:
  assumes "i \<notin> j_id ` set (jobs s)"
  shows "UpdateJobStatus False now i st s = (None, s) \<and>
         IncrementRetryCount False now i s = (None, s) \<and>
         snd (UpdateJobStatus f now i st s) = s \<and>
         snd (IncrementRetryCount f now i s) = s"
  using assms by (simp add: UpdateJobStatus_def IncrementRetryCount_def update_absent_id)

theorem C9_witness:
  "UpdateJobStatus False (30 * Second) ''gone'' StatusDone ex_store = (None, ex_store) \<and>
   IncrementRetryCount False (30 * Second) ''gone'' ex_store = (None, ex_store)"
proof -
  have "''gone'' \<notin> j_id ` set (jobs ex_store)"
    by (simp add: ex_store_def ex_row_def)
  from C9_missing_row_is_silent_noop [OF this] show ?thesis by simp
qed

section \<open>Submission-rate window\<close>

text \<open>
  The claim C5 as stated fails on the boundary: with the window of tenant t ending at time
  100 and its count at the limit 2, a call at time exactly 100 is refused and the limiter
  is left as it was; no next window is opened.
\<close>

theorem C5_counterexample:
  "CheckSubmissionRate 100 ''t'' rl_full = (Some ErrRateLimitExceeded, rl_full)"
  by (simp add: CheckSubmissionRate_def rl_full_def)

lemma window_bump: "w\<lparr>count := c\<rparr> = \<lparr>count = c, windowEnd = windowEnd w\<rparr>"
  by (cases w) simp

text \<open>
  C5 (amended). CheckSubmissionRate keeps a fixed 60-second window per tenant. With no
  window, or with the clock strictly past the window end, it opens a window ending 60 s
  from now with count 1 and succeeds. Otherwise, which includes a call at a time exactly
  equal to the window end, it fails with RateLimitExceeded and changes nothing when the
  count has reached maxSubmissionsPerMinute, and else adds one to the count, keeps the
  window end and succeeds. Other tenants' windows and the limits are never touched.
\<close>

theorem C5_fixed_window:
  assumes "CheckSubmissionRate now t rl = (res, rl')"
  shows
  "(submissionWindows rl t = None \<or> (\<exists>w. submissionWindows rl t = Some w \<and> windowEnd w < now)
      \<longrightarrow> res = None \<and> submissionWindows rl' t = Some \<lparr>count = 1, windowEnd = now + 60 * Second\<rparr>) \<and>
   (\<forall>w. submissionWindows rl t = Some w \<and> now \<le> windowEnd w \<and> maxSubmissionsPerMinute rl \<le> count w
      \<longrightarrow> res = Some ErrRateLimitExceeded \<and> rl' = rl) \<and>
   (\<forall>w. submissionWindows rl t = Some w \<and> now \<le> windowEnd w \<and> count w < maxSubmissionsPerMinute rl
      \<longrightarrow> res = None \<and> submissionWindows rl' t = Some \<lparr>count = count w + 1, windowEnd = windowEnd w\<rparr>) \<and>
   (\<forall>u. u \<noteq> t \<longrightarrow> submissionWindows rl' u = submissionWindows rl u) \<and>
   maxSubmissionsPerMinute rl' = maxSubmissionsPerMinute rl \<and>
   maxConcurrentRunning rl' = maxConcurrentRunning rl"
  using assms
  by (auto simp: CheckSubmissionRate_def Let_def Minute_def window_bump split: option.splits if_splits)

theorem C5_witness:
  "CheckSubmissionRate 100 ''t'' (NewRateLimiter 5 2) =
     (None, (NewRateLimiter 5 2)\<lparr>submissionWindows := [''t'' \<mapsto> \<lparr>count = 1, windowEnd = 100 + 60 * Second\<rparr>]\<rparr>)"
proof -
  obtain res rl' where r: "CheckSubmissionRate 100 ''t'' (NewRateLimiter 5 2) = (res, rl')"
    by (cases "CheckSubmissionRate 100 ''t'' (NewRateLimiter 5 2)")
  have n: "submissionWindows (NewRateLimiter 5 2) ''t'' = None"
    by (simp add: NewRateLimiter_def)
  from C5_fixed_window [OF r] n
  have a: "res = None" and b: "submissionWindows rl' ''t'' = Some \<lparr>count = 1, windowEnd = 100 + 60 * Second\<rparr>"
    and c: "\<forall>u. u \<noteq> ''t'' \<longrightarrow> submissionWindows rl' u = submissionWindows (NewRateLimiter 5 2) u"
    and d: "maxSubmissionsPerMinute rl' = maxSubmissionsPerMinute (NewRateLimiter 5 2)"
           "maxConcurrentRunning rl' = maxConcurrentRunning (NewRateLimiter 5 2)"
    by simp_all
  have "submissionWindows rl' = [''t'' \<mapsto> \<lparr>count = 1, windowEnd = 100 + 60 * Second\<rparr>]"
    using b c by (auto simp: NewRateLimiter_def fun_eq_iff)
  with d have "rl' = (NewRateLimiter 5 2)\<lparr>submissionWindows := [''t'' \<mapsto> \<lparr>count = 1, windowEnd = 100 + 60 * Second\<rparr>]\<rparr>"
    by (cases rl') (simp add: NewRateLimiter_def)
  with r a show ?thesis by simp
qed

section \<open>Admission pipeline\<close>

lemma CreateJob_rejected:
  assumes "CheckSubmissionRate (rate_now env) (req_TenantID req) (rateLimiter svc) = (Some e, rl')"
  shows "JobService_CreateJob env req svc = (Inl e, svc)"
proof -
  from assms have "rl' = rateLimiter svc"
    by (auto simp: CheckSubmissionRate_def Let_def split: option.splits if_splits)
  then show ?thesis
    unfolding JobService_CreateJob_def assms by simp
qed

lemma insert_keeps_limiter:
  "rateLimiter (snd (JobService_CreateJob_insert env job svc)) = rateLimiter svc"
  by (simp add: JobService_CreateJob_insert_def split: prod.split option.split sum.split)

lemma CreateJob_limiter_after:
  assumes "CheckSubmissionRate (rate_now env) (req_TenantID req) (rateLimiter svc) = (None, rl')"
  shows "rateLimiter (snd (JobService_CreateJob env req svc)) = rl'"
  unfolding JobService_CreateJob_def assms 
  by (simp add: insert_keeps_limiter Let_def split: option.split sum.split)

lemma admitted_count:
  assumes "CheckSubmissionRate now t rl = (None, rl')"
  shows "\<exists>w'. submissionWindows rl' t = Some w' \<and>
            count w' = (case submissionWindows rl t of
                          None \<Rightarrow> 1
                        | Some w \<Rightarrow> if windowEnd w < now then 1 else count w + 1)"
  using assms by (auto simp: CheckSubmissionRate_def Let_def split: option.splits if_splits)

text \<open>
  C10. CreateJob calls CheckSubmissionRate first. When that check refuses, CreateJob
  returns its error and nothing else happens. When it admits, the limiter that CreateJob
  leaves behind is the one the check produced, whatever happens afterwards (an existing
  job returned for the idempotency key, the concurrent cap, a store error, a new job):
  the tenant's window count is 1 in a new window and one more than before otherwise.
\<close>

theorem C10_rate_slot_consumed_first:
  assumes "CheckSubmissionRate (rate_now env) (req_TenantID req) (rateLimiter svc) = (res, rl')"
  shows
  "(\<forall>e. res = Some e \<longrightarrow> JobService_CreateJob env req svc = (Inl e, svc)) \<and>
   (res = None \<longrightarrow>
      rateLimiter (snd (JobService_CreateJob env req svc)) = rl' \<and>
      (\<exists>w'. submissionWindows rl' (req_TenantID req) = Some w' \<and>
            count w' = (case submissionWindows (rateLimiter svc) (req_TenantID req) of
                          None \<Rightarrow> 1
                        | Some w \<Rightarrow> if windowEnd w < rate_now env then 1 else count w + 1)))"
  using assms CreateJob_rejected CreateJob_limiter_after admitted_count by blast

lemma ex_rate:
  "CheckSubmissionRate (rate_now ex_env) (req_TenantID ex_req) (rateLimiter ex_svc) =
     (None, (NewRateLimiter 5 10)\<lparr>submissionWindows :=
               [''t'' \<mapsto> \<lparr>count = 1, windowEnd = 20 * Second + 1 * Minute\<rparr>]\<rparr>)"
  by (simp add: CheckSubmissionRate_def ex_env_def ex_req_def ex_svc_def NewRateLimiter_def)

lemma ex_found:
  "GetJobByTenantAndIdempotencyKey (lookup_fails ex_env) (req_TenantID ex_req)
       (req_IdempotencyKey ex_req) (repo ex_svc) = Inr (Some (scan_job ex_row))"
  by (simp add: GetJobByTenantAndIdempotencyKey_def ex_env_def ex_req_def ex_svc_def
        ex_store_def ex_row_def)

theorem C10_witness:
  "fst (JobService_CreateJob ex_env ex_req ex_svc) = Inr (scan_job ex_row) \<and>
   (\<exists>w'. submissionWindows (rateLimiter (snd (JobService_CreateJob ex_env ex_req ex_svc))) ''t'' = Some w'
      \<and> count w' = 1)"
proof -
  have k: "req_IdempotencyKey ex_req \<noteq> []" "req_TenantID ex_req = ''t''"
    by (simp_all add: ex_req_def)
  have n: "submissionWindows (rateLimiter ex_svc) ''t'' = None"
    by (simp add: ex_svc_def NewRateLimiter_def)
  have "fst (JobService_CreateJob ex_env ex_req ex_svc) = Inr (scan_job ex_row)"
    unfolding JobService_CreateJob_def ex_rate using k ex_found by simp
  then show ?thesis
    using C10_rate_slot_consumed_first [OF ex_rate] k n by simp
qed

text \<open>
  C6. A request with a non-empty idempotency key that passes the submission-rate check
  and whose lookup by tenant and key returns a job gets exactly that job back: it is the
  scan of a stored row of that tenant and key, the store and the metrics (total_jobs) are
  unchanged, and only the rate limiter has moved.
\<close>

theorem C6_idempotent_replay:
  assumes key: "req_IdempotencyKey req \<noteq> []"
    and rate: "CheckSubmissionRate (rate_now env) (req_TenantID req) (rateLimiter svc) = (None, rl')"
    and found: "GetJobByTenantAndIdempotencyKey (lookup_fails env) (req_TenantID req)
                  (req_IdempotencyKey req) (repo svc) = Inr (Some existing)"
  shows "JobService_CreateJob env req svc = (Inr existing, svc\<lparr>rateLimiter := rl'\<rparr>) \<and>
         repo (snd (JobService_CreateJob env req svc)) = repo svc \<and>
         metrics (snd (JobService_CreateJob env req svc)) = metrics svc \<and>
         (\<exists>r \<in> set (jobs (repo svc)). existing = scan_job r \<and> tenant_id r = req_TenantID req \<and>
              idempotency_key r = Some (req_IdempotencyKey req))"
proof -
  have 1: "JobService_CreateJob env req svc = (Inr existing, svc\<lparr>rateLimiter := rl'\<rparr>)"
    unfolding JobService_CreateJob_def rate using key found by simp
  have 2: "\<exists>r \<in> set (jobs (repo svc)). existing = scan_job r \<and> tenant_id r = req_TenantID req \<and>
              idempotency_key r = Some (req_IdempotencyKey req)"
    using key found
    by (auto simp: GetJobByTenantAndIdempotencyKey_def find_Some_iff split: if_splits option.splits)
  from 1 2 show ?thesis by simp
qed

theorem C6_witness:
  "JobService_CreateJob ex_env ex_req ex_svc =
     (Inr (scan_job ex_row),
      ex_svc\<lparr>rateLimiter := (NewRateLimiter 5 10)\<lparr>submissionWindows :=
               [''t'' \<mapsto> \<lparr>count = 1, windowEnd = 20 * Second + 1 * Minute\<rparr>]\<rparr>\<rparr>) \<and>
   Payload (scan_job ex_row) = ''A'' \<and> ID (scan_job ex_row) = ''a'' \<and> req_Payload ex_req = ''B''"
proof -
  have k: "req_IdempotencyKey ex_req \<noteq> []" by (simp add: ex_req_def)
  show ?thesis
    using C6_idempotent_replay [OF k ex_rate ex_found]
    by (simp add: scan_job_def ex_row_def ex_req_def)
qed

section \<open>Leasing\<close>

lemma oldest_rows_empty: "oldest_rows rs = [] \<longleftrightarrow> rs = []"
proof
  assume e: "oldest_rows rs = []"
  show "rs = []"
  proof (rule ccontr)
    assume "rs \<noteq> []"
    then have "Min (created_at ` set rs) \<in> created_at ` set rs"
      by (intro Min_in) auto
    then obtain r where r: "r \<in> set rs" "created_at r = Min (created_at ` set rs)"
      by auto
    then have "\<forall>q \<in> set rs. created_at r \<le> created_at q" by simp
    with r(1) have "r \<in> set (oldest_rows rs)" by (simp add: oldest_rows_def)
    with e show False by simp
  qed
qed (simp add: oldest_rows_def)

lemma oldest_None: "oldest tie xs = None \<longleftrightarrow> xs = []"
  by (simp add: oldest_def Let_def oldest_rows_empty)

lemma oldest_Some:
  assumes "oldest tie xs = Some r"
  shows "r \<in> set xs \<and> (\<forall>q \<in> set xs. created_at r \<le> created_at q)"
proof -
  from assms have ne: "oldest_rows xs \<noteq> []"
    and r: "r = oldest_rows xs ! (tie mod length (oldest_rows xs))"
    by (auto simp: oldest_def Let_def split: if_splits)
  from ne have "tie mod length (oldest_rows xs) < length (oldest_rows xs)" by simp
  with r have "r \<in> set (oldest_rows xs)" by (metis nth_mem)
  then show ?thesis by (simp add: oldest_rows_def)
qed

lemma oldest_single: "oldest tie [r] = Some r"
  by (simp add: oldest_def oldest_rows_def)

text \<open>
  C1. LeaseJob at clock reading now, when no database call fails. Timestamps in the table
  are Unix seconds, so the row test reads: status PENDING, or status RUNNING with
  lease_expires_at below the Unix second of now. If some row passes it, the call returns
  such a row of least created_at (whichever of several equally old rows the query picks), as a job with status RUNNING, leased_at now,
  lease_expires_at now + leaseDuration and updated_at now, and the table holds that row
  (the rows of that id) with status RUNNING and the same three timestamps in seconds,
  every other row as before. If no row passes, the call returns no job and the store is
  unchanged.
\<close>

theorem C1_lease_oldest_leasable:
  "(\<forall>r. leasable (Unix now) r \<longleftrightarrow>
         status r = StatusPending \<or>
         status r = StatusRunning \<and> (\<exists>e. lease_expires_at r = Some e \<and> e < Unix now)) \<and>
   (if \<exists>r \<in> set (jobs s). leasable (Unix now) r
    then \<exists>r \<in> set (jobs s).
           leasable (Unix now) r \<and>
           (\<forall>q \<in> set (jobs s). leasable (Unix now) q \<longrightarrow> created_at r \<le> created_at q) \<and>
           LeaseJob None tie now d s =
             (Inr (Some ((scan_job r)\<lparr>Status := StatusRunning, LeasedAt := Some now,
                                     LeaseExpiresAt := Some (now + d), UpdatedAt := now\<rparr>)),
              s\<lparr>jobs := map (\<lambda>q. if j_id q = j_id r
                                  then q\<lparr>status := StatusRunning, leased_at := Some (Unix now),
                                         lease_expires_at := Some (Unix (now + d)),
                                         updated_at := Unix now\<rparr>
                                  else q) (jobs s)\<rparr>)
    else LeaseJob None tie now d s = (Inr None, s))"
proof (intro conjI)
  show "\<forall>r. leasable (Unix now) r \<longleftrightarrow>
         status r = StatusPending \<or>
         status r = StatusRunning \<and> (\<exists>e. lease_expires_at r = Some e \<and> e < Unix now)"
    by (auto simp: leasable_def split: option.splits)
next
  let ?c = "filter (leasable (Unix now)) (jobs s)"
  show "if \<exists>r \<in> set (jobs s). leasable (Unix now) r
    then \<exists>r \<in> set (jobs s).
           leasable (Unix now) r \<and>
           (\<forall>q \<in> set (jobs s). leasable (Unix now) q \<longrightarrow> created_at r \<le> created_at q) \<and>
           LeaseJob None tie now d s =
             (Inr (Some ((scan_job r)\<lparr>Status := StatusRunning, LeasedAt := Some now,
                                     LeaseExpiresAt := Some (now + d), UpdatedAt := now\<rparr>)),
              s\<lparr>jobs := map (\<lambda>q. if j_id q = j_id r
                                  then q\<lparr>status := StatusRunning, leased_at := Some (Unix now),
                                         lease_expires_at := Some (Unix (now + d)),
                                         updated_at := Unix now\<rparr>
                                  else q) (jobs s)\<rparr>)
    else LeaseJob None tie now d s = (Inr None, s)"
  proof (cases "oldest tie ?c")
    case None
    then have "?c = []" by (simp add: oldest_None)
    then have no: "\<not> (\<exists>r \<in> set (jobs s). leasable (Unix now) r)"
      by (simp add: filter_empty_conv)
    from None have "LeaseJob None tie now d s = (Inr None, s)"
      by (simp add: LeaseJob_def)
    with no show ?thesis by simp
  next
    case (Some r)
    from oldest_Some [OF Some]
    have r: "r \<in> set (jobs s)" "leasable (Unix now) r"
      and least: "\<forall>q \<in> set (jobs s). leasable (Unix now) q \<longrightarrow> created_at r \<le> created_at q"
      by auto
    have "LeaseJob None tie now d s =
             (Inr (Some ((scan_job r)\<lparr>Status := StatusRunning, LeasedAt := Some now,
                                     LeaseExpiresAt := Some (now + d), UpdatedAt := now\<rparr>)),
              s\<lparr>jobs := map (\<lambda>q. if j_id q = j_id r
                                  then q\<lparr>status := StatusRunning, leased_at := Some (Unix now),
                                         lease_expires_at := Some (Unix (now + d)),
                                         updated_at := Unix now\<rparr>
                                  else q) (jobs s)\<rparr>)"
      using Some by (simp add: LeaseJob_def Let_def scan_job_def)
    with r least show ?thesis by auto
  qed
qed

theorem C1_witness:
  "LeaseJob None 0 (20 * Second) (30 * Second) lease_store =
     (Inr (Some \<lparr>ID = ''b'', TenantID = ''t'', IdempotencyKey = [], Payload = ''work'',
                  Status = StatusRunning, MaxRetries = 3, RetryCount = 1,
                  LeasedAt = Some (20 * Second), LeaseExpiresAt = Some (20 * Second + 30 * Second),
                  CreatedAt = time_Unix 5, UpdatedAt = 20 * Second\<rparr>),
      \<lparr>jobs = [ex_row,
               row_b\<lparr>status := StatusRunning, leased_at := Some 20, lease_expires_at := Some 50,
                     updated_at := 20\<rparr>,
               row_c],
       dead_letter_jobs = []\<rparr>)"
proof -
  let ?now = "20 * Second" and ?d = "30 * Second"
  have u: "Unix ?now = 20" "Unix (?now + ?d) = 50" "Unix (50 * Second) = 50"
    by (simp_all add: Unix_def Second_def)
  have la: "leasable (Unix ?now) ex_row" 
    by (simp add: leasable_def ex_row_def)
  have lb: "leasable (Unix ?now) row_b"
    by (simp add: leasable_def row_b_def u)
  have lc: "\<not> leasable (Unix ?now) row_c"
    by (simp add: leasable_def row_c_def u)
  have js: "set (jobs lease_store) = {ex_row, row_b, row_c}"
    by (simp add: lease_store_def)
  have some: "\<exists>r \<in> set (jobs lease_store). leasable (Unix ?now) r"
    using la js by blast
  have "\<exists>r \<in> set (jobs lease_store).
           leasable (Unix ?now) r \<and>
           (\<forall>q \<in> set (jobs lease_store). leasable (Unix ?now) q \<longrightarrow> created_at r \<le> created_at q) \<and>
           LeaseJob None 0 ?now ?d lease_store =
             (Inr (Some ((scan_job r)\<lparr>Status := StatusRunning, LeasedAt := Some ?now,
                                     LeaseExpiresAt := Some (?now + ?d), UpdatedAt := ?now\<rparr>)),
              lease_store\<lparr>jobs := map (\<lambda>q. if j_id q = j_id r
                                  then q\<lparr>status := StatusRunning, leased_at := Some (Unix ?now),
                                         lease_expires_at := Some (Unix (?now + ?d)),
                                         updated_at := Unix ?now\<rparr>
                                  else q) (jobs lease_store)\<rparr>)"
    using C1_lease_oldest_leasable [where now = ?now and s = lease_store and d = ?d and tie = 0,
        THEN conjunct2] some
    by (simp only: if_True)
  then obtain r where r: "r \<in> set (jobs lease_store)" "leasable (Unix ?now) r"
    and least: "\<forall>q \<in> set (jobs lease_store). leasable (Unix ?now) q \<longrightarrow> created_at r \<le> created_at q"
    and res: "LeaseJob None 0 ?now ?d lease_store =
             (Inr (Some ((scan_job r)\<lparr>Status := StatusRunning, LeasedAt := Some ?now,
                                     LeaseExpiresAt := Some (?now + ?d), UpdatedAt := ?now\<rparr>)),
              lease_store\<lparr>jobs := map (\<lambda>q. if j_id q = j_id r
                                  then q\<lparr>status := StatusRunning, leased_at := Some (Unix ?now),
                                         lease_expires_at := Some (Unix (?now + ?d)),
                                         updated_at := Unix ?now\<rparr>
                                  else q) (jobs lease_store)\<rparr>)"
    by blast
  from least lb js have "created_at r \<le> created_at row_b" by blast
  then have "created_at r \<le> 5" by (simp add: row_b_def)
  moreover have "created_at ex_row = 10" by (simp add: ex_row_def)
  ultimately have "r \<noteq> ex_row" by auto
  with r lc js have "r = row_b" by blast
  with res show ?thesis
    by (simp add: u lease_store_def scan_job_def ex_row_def row_b_def row_c_def)
qed

section \<open>Dead-letter move\<close>

lemma ids_update:
  "(\<And>q. j_id (g q) = j_id q) \<Longrightarrow>
   j_id ` set (map (\<lambda>q. if j_id q = i then g q else q) rows) = j_id ` set rows"
  by (induction rows) auto

lemma CreateJob_store_effect:
  "snd (snd (CreateJob f now job s)) = s \<or>
   (ID job \<notin> j_id ` set (jobs s) \<and>
    (\<exists>row. snd (snd (CreateJob f now job s)) = s\<lparr>jobs := jobs s @ [row]\<rparr> \<and>
           j_id row = ID job \<and> status row = Status job \<and>
           retry_count row = RetryCount job \<and> max_retries row = MaxRetries job \<and>
           leased_at row = None \<and> lease_expires_at row = None))"
  by (auto simp: CreateJob_def Let_def insert_job_def split: if_splits)

lemma Move_fails_unchanged:
  "fst (MoveToDeadLetterQueue io t1 t2 job reason s) \<noteq> None \<Longrightarrow>
   snd (MoveToDeadLetterQueue io t1 t2 job reason s) = s"
  by (auto simp: MoveToDeadLetterQueue_def Let_def split: if_splits)

lemma Move_succeeds_iff:
  "fst (MoveToDeadLetterQueue io t1 t2 job reason s) = None \<longleftrightarrow>
   io = None \<and> (''dlq_'' @ ID job @ ''_'' @ fmt_d (Unix t1)) \<notin> d_id ` set (dead_letter_jobs s)"
proof (cases io)
  case None
  then show ?thesis by (force simp: MoveToDeadLetterQueue_def Let_def)
next
  case (Some a)
  then show ?thesis by (cases a) (auto simp: MoveToDeadLetterQueue_def Let_def)
qed

lemma Move_succeeds_effect:
  assumes "fst (MoveToDeadLetterQueue io t1 t2 job reason s) = None"
  shows "snd (MoveToDeadLetterQueue io t1 t2 job reason s) =
           \<lparr>jobs = filter (\<lambda>q. j_id q \<noteq> ID job) (jobs s),
            dead_letter_jobs = dead_letter_jobs s @
              [\<lparr>d_id = ''dlq_'' @ ID job @ ''_'' @ fmt_d (Unix t1), job_id = ID job,
                d_tenant_id = TenantID job, d_payload = Payload job,
                failure_reason = reason, failed_at = Unix t2\<rparr>]\<rparr>"
  using assms by (cases s) (simp add: MoveToDeadLetterQueue_def Let_def split: if_splits)

lemma Move_live_once:
  assumes "live_once s"
  shows "live_once (snd (MoveToDeadLetterQueue io t1 t2 job reason s))"
proof (cases "fst (MoveToDeadLetterQueue io t1 t2 job reason s)")
  case None
  from Move_succeeds_effect [OF None] assms show ?thesis
    by (auto simp: live_once_def)
next
  case (Some e)
  then have "snd (MoveToDeadLetterQueue io t1 t2 job reason s) = s"
    by (simp add: Move_fails_unchanged)
  with assms show ?thesis by simp
qed

lemma live_once_update:
  assumes "live_once s" and "\<And>q. j_id (g q) = j_id q"
  shows "live_once (s\<lparr>jobs := map (\<lambda>q. if j_id q = i then g q else q) (jobs s)\<rparr>)"
proof -
  have "j_id ` set (map (\<lambda>q. if j_id q = i then g q else q) (jobs s)) = j_id ` set (jobs s)"
    by (rule ids_update) (rule assms(2))
  with assms(1) show ?thesis by (simp add: live_once_def del: set_map)
qed

lemma live_once_LeaseJob: "live_once s \<Longrightarrow> live_once (snd (LeaseJob io tie now d s))"
  by (auto simp: LeaseJob_def Let_def intro!: live_once_update split: option.splits)

lemma live_once_UpdateJobStatus:
  "live_once s \<Longrightarrow> live_once (snd (UpdateJobStatus f now i st s))"
  by (auto simp: UpdateJobStatus_def intro!: live_once_update)

lemma live_once_IncrementRetryCount:
  "live_once s \<Longrightarrow> live_once (snd (IncrementRetryCount f now i s))"
  by (auto simp: IncrementRetryCount_def intro!: live_once_update)

lemma live_once_iff:
  "live_once s \<longleftrightarrow>
   (\<forall>q \<in> set (jobs s). \<forall>d \<in> set (dead_letter_jobs s). j_id q \<noteq> job_id d)"
  unfolding live_once_def by blast

lemma live_once_CreateJob:
  assumes "live_once s" and "ID job \<notin> job_id ` set (dead_letter_jobs s)"
  shows "live_once (snd (snd (CreateJob f now job s)))"
  using assms CreateJob_store_effect [of f now job s]
  by (fastforce simp: live_once_iff image_iff)

text \<open>
  C8. MoveToDeadLetterQueue is all or nothing. It succeeds exactly when no step of its
  transaction fails, which includes that the DLQ id is not taken. On success the DLQ
  gains one row with job_id the job's id, tenant_id and payload copied from the job,
  failure_reason the given reason and failed_at the clock reading in seconds, and every
  row of that id is gone from table jobs, so the id is no longer in table jobs. On any
  error the store is exactly as before. Either way a store in which no job id is in both
  tables stays so; the other writes of the repository keep that too (LeaseJob,
  UpdateJobStatus, IncrementRetryCount always, CreateJob for a job whose id is not
  dead-lettered), so it holds after every operation.
\<close>

theorem C8_move_to_dlq_atomic:
  "(fst (MoveToDeadLetterQueue io now_id now_failed job reason s) = None \<longrightarrow>
      snd (MoveToDeadLetterQueue io now_id now_failed job reason s) =
        \<lparr>jobs = filter (\<lambda>q. j_id q \<noteq> ID job) (jobs s),
         dead_letter_jobs = dead_letter_jobs s @
           [\<lparr>d_id = ''dlq_'' @ ID job @ ''_'' @ fmt_d (Unix now_id), job_id = ID job,
             d_tenant_id = TenantID job, d_payload = Payload job,
             failure_reason = reason, failed_at = Unix now_failed\<rparr>]\<rparr> \<and>
      ID job \<notin> j_id ` set (jobs (snd (MoveToDeadLetterQueue io now_id now_failed job reason s)))) \<and>
   (fst (MoveToDeadLetterQueue io now_id now_failed job reason s) \<noteq> None \<longrightarrow>
      snd (MoveToDeadLetterQueue io now_id now_failed job reason s) = s) \<and>
   (fst (MoveToDeadLetterQueue io now_id now_failed job reason s) = None \<longleftrightarrow>
      io = None \<and>
      (''dlq_'' @ ID job @ ''_'' @ fmt_d (Unix now_id)) \<notin> d_id ` set (dead_letter_jobs s)) \<and>
   (live_once s \<longrightarrow>
      live_once (snd (MoveToDeadLetterQueue io now_id now_failed job reason s)) \<and>
      live_once (snd (LeaseJob lio tie t d s)) \<and>
      live_once (snd (UpdateJobStatus f t i st s)) \<and>
      live_once (snd (IncrementRetryCount f t i s)) \<and>
      (ID j \<notin> job_id ` set (dead_letter_jobs s) \<longrightarrow> live_once (snd (snd (CreateJob f t j s)))))"
proof -
  let ?m = "MoveToDeadLetterQueue io now_id now_failed job reason s"
  let ?s' = "\<lparr>jobs = filter (\<lambda>q. j_id q \<noteq> ID job) (jobs s),
         dead_letter_jobs = dead_letter_jobs s @
           [\<lparr>d_id = ''dlq_'' @ ID job @ ''_'' @ fmt_d (Unix now_id), job_id = ID job,
             d_tenant_id = TenantID job, d_payload = Payload job,
             failure_reason = reason, failed_at = Unix now_failed\<rparr>]\<rparr>"
  have a: "fst ?m = None \<longrightarrow> snd ?m = ?s' \<and> ID job \<notin> j_id ` set (jobs (snd ?m))"
  proof
    assume ok: "fst ?m = None"
    have "snd ?m = ?s'" by (rule Move_succeeds_effect [OF ok])
    moreover have "ID job \<notin> j_id ` set (jobs ?s')" by auto
    ultimately show "snd ?m = ?s' \<and> ID job \<notin> j_id ` set (jobs (snd ?m))" by simp
  qed
  have b: "fst ?m \<noteq> None \<longrightarrow> snd ?m = s"
    using Move_fails_unchanged by blast
  have c: "fst ?m = None \<longleftrightarrow>
      io = None \<and>
      (''dlq_'' @ ID job @ ''_'' @ fmt_d (Unix now_id)) \<notin> d_id ` set (dead_letter_jobs s)"
    by (rule Move_succeeds_iff)
  have e: "live_once s \<longrightarrow>
      live_once (snd ?m) \<and>
      live_once (snd (LeaseJob lio tie t d s)) \<and>
      live_once (snd (UpdateJobStatus f t i st s)) \<and>
      live_once (snd (IncrementRetryCount f t i s)) \<and>
      (ID j \<notin> job_id ` set (dead_letter_jobs s) \<longrightarrow> live_once (snd (snd (CreateJob f t j s))))"
    by (simp add: Move_live_once live_once_LeaseJob live_once_UpdateJobStatus
          live_once_IncrementRetryCount live_once_CreateJob)
  from a b c e show ?thesis by (intro conjI)
qed

lemma fmt_d_20: "fmt_d 20 = ''20''"
  by (simp add: fmt_d_def fmt_nat.simps)

theorem C8_witness:
  "MoveToDeadLetterQueue None (20 * Second) (20 * Second) job_c ''max retries exceeded: x'' lease_store =
     (None, \<lparr>jobs = [ex_row, row_b],
               dead_letter_jobs = [\<lparr>d_id = ''dlq_c_20'', job_id = ''c'', d_tenant_id = ''u'',
                  d_payload = ''fail'', failure_reason = ''max retries exceeded: x'',
                  failed_at = 20\<rparr>]\<rparr>) \<and>
   live_once lease_store \<and>
   live_once (snd (MoveToDeadLetterQueue None (20 * Second) (20 * Second) job_c
                     ''max retries exceeded: x'' lease_store)) \<and>
   MoveToDeadLetterQueue (Some MoveCommit) (20 * Second) (20 * Second) job_c ''max retries exceeded: x'' lease_store
     = (Some (Wrapf ''failed to commit transaction'' ErrIO), lease_store)"
proof -
  let ?m = "MoveToDeadLetterQueue None (20 * Second) (20 * Second) job_c ''max retries exceeded: x'' lease_store"
  let ?f = "MoveToDeadLetterQueue (Some MoveCommit) (20 * Second) (20 * Second) job_c ''max retries exceeded: x'' lease_store"
  have u: "Unix (20 * Second) = 20" by (simp add: Unix_def Second_def)
  have free: "(''dlq_'' @ ID job_c @ ''_'' @ fmt_d (Unix (20 * Second))) \<notin> d_id ` set (dead_letter_jobs lease_store)"
    by (simp add: lease_store_def)
  have lo: "live_once lease_store" by (simp add: live_once_def lease_store_def)
  note c8 = C8_move_to_dlq_atomic [of None "20 * Second" "20 * Second" job_c "''max retries exceeded: x''" lease_store]
  from c8 free have ok: "fst ?m = None" by simp
  with c8 have "snd ?m = \<lparr>jobs = filter (\<lambda>q. j_id q \<noteq> ID job_c) (jobs lease_store),
         dead_letter_jobs = dead_letter_jobs lease_store @
           [\<lparr>d_id = ''dlq_'' @ ID job_c @ ''_'' @ fmt_d (Unix (20 * Second)), job_id = ID job_c,
             d_tenant_id = TenantID job_c, d_payload = Payload job_c,
             failure_reason = ''max retries exceeded: x'', failed_at = Unix (20 * Second)\<rparr>]\<rparr>"
    by blast
  then have "snd ?m = \<lparr>jobs = [ex_row, row_b],
               dead_letter_jobs = [\<lparr>d_id = ''dlq_c_20'', job_id = ''c'', d_tenant_id = ''u'',
                  d_payload = ''fail'', failure_reason = ''max retries exceeded: x'',
                  failed_at = 20\<rparr>]\<rparr>"
    by (simp add: u fmt_d_20 lease_store_def job_c_def ex_row_def row_b_def row_c_def)
  with ok have 1: "?m = (None, \<lparr>jobs = [ex_row, row_b],
               dead_letter_jobs = [\<lparr>d_id = ''dlq_c_20'', job_id = ''c'', d_tenant_id = ''u'',
                  d_payload = ''fail'', failure_reason = ''max retries exceeded: x'',
                  failed_at = 20\<rparr>]\<rparr>)"
    by (simp add: prod_eq_iff)
  have 2: "?f = (Some (Wrapf ''failed to commit transaction'' ErrIO), lease_store)"
    by (simp add: MoveToDeadLetterQueue_def Let_def lease_store_def)
  from c8 lo have 3: "live_once (snd ?m)" by blast
  from 1 lo 2 3 show ?thesis by simp
qed

section \<open>Worker outcome policy\<close>

lemma retry_then_pending:
  "map (\<lambda>q. if j_id q = i then q\<lparr>status := st, updated_at := t2\<rparr> else q)
     (map (\<lambda>q. if j_id q = i then q\<lparr>retry_count := retry_count q + 1, updated_at := t1\<rparr> else q) rows)
   = map (\<lambda>q. if j_id q = i
               then q\<lparr>retry_count := retry_count q + 1, status := st, updated_at := t2\<rparr>
               else q) rows"
  by (induction rows) auto

text \<open>
  C3. What processJob does with a leased job. The built-in handler fails exactly on the
  payload "fail". On success the job's row gets status DONE and completed_jobs is
  incremented. On failure with retry_count < max_retries the row's retry_count is
  incremented, then its status set to PENDING, and retried_jobs is incremented; if the
  status write fails after the increment, the increment stays and no counter moves. On
  failure with retry_count >= max_retries the job is moved to the DLQ with failure_reason
  "max retries exceeded: " followed by the handler's reason, and failed_jobs is
  incremented. Each case is stated for database calls that succeed.
\<close>

theorem C3_outcome_policy:
  "(Payload job \<noteq> ''fail'' \<and> \<not> status_fails env \<longrightarrow>
      processJob env job w =
        \<lparr>w_repo = (w_repo w)\<lparr>jobs := map (\<lambda>q. if j_id q = ID job
                      then q\<lparr>status := StatusDone, updated_at := Unix (status_now env)\<rparr>
                      else q) (jobs (w_repo w))\<rparr>,
         w_metrics = (w_metrics w)\<lparr>completedJobs := completedJobs (w_metrics w) + 1\<rparr>\<rparr>) \<and>
   (Payload job = ''fail'' \<and> RetryCount job < MaxRetries job \<and>
    \<not> retry_fails env \<and> \<not> status_fails env \<longrightarrow>
      processJob env job w =
        \<lparr>w_repo = (w_repo w)\<lparr>jobs := map (\<lambda>q. if j_id q = ID job
                      then q\<lparr>retry_count := retry_count q + 1, status := StatusPending,
                             updated_at := Unix (status_now env)\<rparr>
                      else q) (jobs (w_repo w))\<rparr>,
         w_metrics = (w_metrics w)\<lparr>retriedJobs := retriedJobs (w_metrics w) + 1\<rparr>\<rparr>) \<and>
   (Payload job = ''fail'' \<and> RetryCount job < MaxRetries job \<and>
    \<not> retry_fails env \<and> status_fails env \<longrightarrow>
      processJob env job w =
        \<lparr>w_repo = (w_repo w)\<lparr>jobs := map (\<lambda>q. if j_id q = ID job
                      then q\<lparr>retry_count := retry_count q + 1,
                             updated_at := Unix (retry_now env)\<rparr>
                      else q) (jobs (w_repo w))\<rparr>,
         w_metrics = w_metrics w\<rparr>) \<and>
   (Payload job = ''fail'' \<and> \<not> RetryCount job < MaxRetries job \<and> move_fault env = None \<and>
    (''dlq_'' @ ID job @ ''_'' @ fmt_d (Unix (move_now_id env)))
       \<notin> d_id ` set (dead_letter_jobs (w_repo w)) \<longrightarrow>
      processJob env job w =
        \<lparr>w_repo = \<lparr>jobs = filter (\<lambda>q. j_id q \<noteq> ID job) (jobs (w_repo w)),
                    dead_letter_jobs = dead_letter_jobs (w_repo w) @
                      [\<lparr>d_id = ''dlq_'' @ ID job @ ''_'' @ fmt_d (Unix (move_now_id env)),
                        job_id = ID job, d_tenant_id = TenantID job, d_payload = Payload job,
                        failure_reason = ''max retries exceeded: '' @ payload_is_fail,
                        failed_at = Unix (move_now_failed env)\<rparr>]\<rparr>,
         w_metrics = (w_metrics w)\<lparr>failedJobs := failedJobs (w_metrics w) + 1\<rparr>\<rparr>)"
proof (intro conjI impI; elim conjE)
  assume "Payload job \<noteq> ''fail''" "\<not> status_fails env"
  then show "processJob env job w =
        \<lparr>w_repo = (w_repo w)\<lparr>jobs := map (\<lambda>q. if j_id q = ID job
                      then q\<lparr>status := StatusDone, updated_at := Unix (status_now env)\<rparr>
                      else q) (jobs (w_repo w))\<rparr>,
         w_metrics = (w_metrics w)\<lparr>completedJobs := completedJobs (w_metrics w) + 1\<rparr>\<rparr>"
    by (cases w) (simp add: processJob_def UpdateJobStatus_def IncrementCompletedJobs_def)
next
  assume "Payload job = ''fail''" "RetryCount job < MaxRetries job"
    "\<not> retry_fails env" "\<not> status_fails env"
  then show "processJob env job w =
        \<lparr>w_repo = (w_repo w)\<lparr>jobs := map (\<lambda>q. if j_id q = ID job
                      then q\<lparr>retry_count := retry_count q + 1, status := StatusPending,
                             updated_at := Unix (status_now env)\<rparr>
                      else q) (jobs (w_repo w))\<rparr>,
         w_metrics = (w_metrics w)\<lparr>retriedJobs := retriedJobs (w_metrics w) + 1\<rparr>\<rparr>"
    by (cases w) (simp add: processJob_def handleJobFailure_def UpdateJobStatus_def
          IncrementRetryCount_def IncrementRetriedJobs_def retry_then_pending)
next
  assume "Payload job = ''fail''" "RetryCount job < MaxRetries job"
    "\<not> retry_fails env" "status_fails env"
  then show "processJob env job w =
        \<lparr>w_repo = (w_repo w)\<lparr>jobs := map (\<lambda>q. if j_id q = ID job
                      then q\<lparr>retry_count := retry_count q + 1,
                             updated_at := Unix (retry_now env)\<rparr>
                      else q) (jobs (w_repo w))\<rparr>,
         w_metrics = w_metrics w\<rparr>"
    by (cases w) (simp add: processJob_def handleJobFailure_def UpdateJobStatus_def
          IncrementRetryCount_def)
next
  let ?m = "MoveToDeadLetterQueue (move_fault env) (move_now_id env) (move_now_failed env) job
                (''max retries exceeded: '' @ payload_is_fail) (w_repo w)"
  assume a: "Payload job = ''fail''" "\<not> RetryCount job < MaxRetries job" "move_fault env = None"
    "(''dlq_'' @ ID job @ ''_'' @ fmt_d (Unix (move_now_id env)))
       \<notin> d_id ` set (dead_letter_jobs (w_repo w))"
  then have ok: "fst ?m = None" by (simp add: Move_succeeds_iff)
  have pj: "processJob env job w =
              w\<lparr>w_repo := snd ?m, w_metrics := IncrementFailedJobs (w_metrics w)\<rparr>"
    using a(1,2) ok by (simp add: processJob_def handleJobFailure_def case_prod_beta)
  show "processJob env job w =
        \<lparr>w_repo = \<lparr>jobs = filter (\<lambda>q. j_id q \<noteq> ID job) (jobs (w_repo w)),
                    dead_letter_jobs = dead_letter_jobs (w_repo w) @
                      [\<lparr>d_id = ''dlq_'' @ ID job @ ''_'' @ fmt_d (Unix (move_now_id env)),
                        job_id = ID job, d_tenant_id = TenantID job, d_payload = Payload job,
                        failure_reason = ''max retries exceeded: '' @ payload_is_fail,
                        failed_at = Unix (move_now_failed env)\<rparr>]\<rparr>,
         w_metrics = (w_metrics w)\<lparr>failedJobs := failedJobs (w_metrics w) + 1\<rparr>\<rparr>"
    unfolding pj Move_succeeds_effect [OF ok]
    by (cases w) (simp add: IncrementFailedJobs_def)
qed

theorem C3_witness:
  "processJob penv job_b worker0 =
     \<lparr>w_repo = \<lparr>jobs = [row_b\<lparr>status := StatusDone, updated_at := 23\<rparr>, row_c, row_f],
                 dead_letter_jobs = []\<rparr>,
      w_metrics = NewMetrics\<lparr>completedJobs := 1\<rparr>\<rparr> \<and>
   processJob penv job_f worker0 =
     \<lparr>w_repo = \<lparr>jobs = [row_b, row_c,
                         row_f\<lparr>retry_count := 1, status := StatusPending, updated_at := 23\<rparr>],
                 dead_letter_jobs = []\<rparr>,
      w_metrics = NewMetrics\<lparr>retriedJobs := 1\<rparr>\<rparr> \<and>
   processJob penv job_c worker0 =
     \<lparr>w_repo = \<lparr>jobs = [row_b, row_f],
                 dead_letter_jobs =
                   [\<lparr>d_id = ''dlq_c_24'', job_id = ''c'', d_tenant_id = ''u'', d_payload = ''fail'',
                     failure_reason = ''max retries exceeded: payload is '' @ [CHR 0x27] @ ''fail''
                                      @ [CHR 0x27],
                     failed_at = 25\<rparr>]\<rparr>,
      w_metrics = NewMetrics\<lparr>failedJobs := 1\<rparr>\<rparr>"
proof -
  have u: "Unix (23 * Second) = 23" "Unix (24 * Second) = 24" "Unix (25 * Second) = 25"
    by (simp_all add: Unix_def Second_def)
  have f: "fmt_d 24 = ''24''" by (simp add: fmt_d_def fmt_nat.simps)
  have 1: "processJob penv job_b worker0 =
     \<lparr>w_repo = \<lparr>jobs = [row_b\<lparr>status := StatusDone, updated_at := 23\<rparr>, row_c, row_f],
                 dead_letter_jobs = []\<rparr>,
      w_metrics = NewMetrics\<lparr>completedJobs := 1\<rparr>\<rparr>"
    using C3_outcome_policy [of job_b penv worker0, THEN conjunct1]
    by (simp add: u job_b_def penv_def worker0_def NewMetrics_def row_b_def row_c_def row_f_def)
  have 2: "processJob penv job_f worker0 =
     \<lparr>w_repo = \<lparr>jobs = [row_b, row_c,
                         row_f\<lparr>retry_count := 1, status := StatusPending, updated_at := 23\<rparr>],
                 dead_letter_jobs = []\<rparr>,
      w_metrics = NewMetrics\<lparr>retriedJobs := 1\<rparr>\<rparr>"
    using C3_outcome_policy [of job_f penv worker0, THEN conjunct2, THEN conjunct1]
    by (simp add: u job_f_def penv_def worker0_def NewMetrics_def row_b_def row_c_def row_f_def)
  have 3: "processJob penv job_c worker0 =
     \<lparr>w_repo = \<lparr>jobs = [row_b, row_f],
                 dead_letter_jobs =
                   [\<lparr>d_id = ''dlq_c_24'', job_id = ''c'', d_tenant_id = ''u'', d_payload = ''fail'',
                     failure_reason = ''max retries exceeded: payload is '' @ [CHR 0x27] @ ''fail''
                                      @ [CHR 0x27],
                     failed_at = 25\<rparr>]\<rparr>,
      w_metrics = NewMetrics\<lparr>failedJobs := 1\<rparr>\<rparr>"
    using C3_outcome_policy [of job_c penv worker0, THEN conjunct2, THEN conjunct2, THEN conjunct2]
    by (simp add: u f job_c_def penv_def worker0_def NewMetrics_def row_b_def row_c_def row_f_def
          payload_is_fail_def)
  from 1 2 3 show ?thesis by simp
qed

section \<open>Leases and processing: supporting facts\<close>

lemma LeaseJob_Some:
  assumes "LeaseJob io tie now d s = (Inr (Some job), s')"
  shows "\<exists>r \<in> set (jobs s). leasable (Unix now) r \<and> j_id r = ID job \<and>
            TenantID job = tenant_id r \<and> Payload job = payload r \<and>
            RetryCount job = retry_count r \<and> MaxRetries job = max_retries r"
    and "jobs s' = map (\<lambda>q. if j_id q = ID job
                            then q\<lparr>status := StatusRunning, leased_at := Some (Unix now),
                                   lease_expires_at := Some (Unix (now + d)),
                                   updated_at := Unix now\<rparr>
                            else q) (jobs s)"
    and "dead_letter_jobs s' = dead_letter_jobs s"
proof -
  from assms obtain r where o: "oldest tie (filter (leasable (Unix now)) (jobs s)) = Some r"
    and j: "job = (scan_job r)\<lparr>Status := StatusRunning, LeasedAt := Some now,
                                LeaseExpiresAt := Some (now + d), UpdatedAt := now\<rparr>"
    and s': "s' = s\<lparr>jobs := map (\<lambda>q. if j_id q = j_id r
                            then q\<lparr>status := StatusRunning, leased_at := Some (Unix now),
                                   lease_expires_at := Some (Unix (now + d)),
                                   updated_at := Unix now\<rparr>
                            else q) (jobs s)\<rparr>"
    by (auto simp: LeaseJob_def Let_def scan_job_def split: if_splits option.splits)
  from oldest_Some [OF o] have r: "r \<in> set (jobs s)" "leasable (Unix now) r" by auto
  from j have id: "ID job = j_id r" by (simp add: scan_job_def)
  from r j show "\<exists>r \<in> set (jobs s). leasable (Unix now) r \<and> j_id r = ID job \<and>
            TenantID job = tenant_id r \<and> Payload job = payload r \<and>
            RetryCount job = retry_count r \<and> MaxRetries job = max_retries r"
    by (auto simp: scan_job_def)
  from s' id show "jobs s' = map (\<lambda>q. if j_id q = ID job
                            then q\<lparr>status := StatusRunning, leased_at := Some (Unix now),
                                   lease_expires_at := Some (Unix (now + d)),
                                   updated_at := Unix now\<rparr>
                            else q) (jobs s)"
    by simp
  from s' show "dead_letter_jobs s' = dead_letter_jobs s" by simp
qed

lemma UpdateJobStatus_lease_columns:
  "map (\<lambda>q. (j_id q, leased_at q, lease_expires_at q)) (jobs (snd (UpdateJobStatus f now i st s)))
   = map (\<lambda>q. (j_id q, leased_at q, lease_expires_at q)) (jobs s)"
  by (simp add: UpdateJobStatus_def comp_def if_distrib cong: if_cong)

lemma IncrementRetryCount_lease_columns:
  "map (\<lambda>q. (j_id q, leased_at q, lease_expires_at q)) (jobs (snd (IncrementRetryCount f now i s)))
   = map (\<lambda>q. (j_id q, leased_at q, lease_expires_at q)) (jobs s)"
  by (simp add: IncrementRetryCount_def comp_def if_distrib cong: if_cong)

lemma processJob_lease_columns:
  assumes "Payload job \<noteq> ''fail'' \<or> RetryCount job < MaxRetries job"
  shows "map (\<lambda>q. (j_id q, leased_at q, lease_expires_at q)) (jobs (w_repo (processJob env job w)))
       = map (\<lambda>q. (j_id q, leased_at q, lease_expires_at q)) (jobs (w_repo w))"
proof (cases "Payload job = ''fail''")
  case False
  have "w_repo (processJob env job w) =
          snd (UpdateJobStatus (status_fails env) (status_now env) (ID job) StatusDone (w_repo w))"
    using False by (simp add: processJob_def case_prod_beta)
  then show ?thesis by (simp only: UpdateJobStatus_lease_columns)
next
  case True
  with assms have lt: "RetryCount job < MaxRetries job" by simp
  let ?i = "IncrementRetryCount (retry_fails env) (retry_now env) (ID job) (w_repo w)"
  have "w_repo (processJob env job w) = snd ?i \<or>
        w_repo (processJob env job w) =
          snd (UpdateJobStatus (status_fails env) (status_now env) (ID job) StatusPending (snd ?i))"
    using True lt by (simp add: processJob_def handleJobFailure_def case_prod_beta)
  then show ?thesis
    by (auto simp only: UpdateJobStatus_lease_columns IncrementRetryCount_lease_columns)
qed

lemma processJob_jobs_done:
  assumes "Payload job \<noteq> ''fail''" "\<not> status_fails env"
  shows "jobs (w_repo (processJob env job w)) =
           map (\<lambda>q. if j_id q = ID job
                     then q\<lparr>status := StatusDone, updated_at := Unix (status_now env)\<rparr>
                     else q) (jobs (w_repo w))"
  using assms by (simp add: processJob_def UpdateJobStatus_def)

lemma processJob_jobs_retry:
  assumes "Payload job = ''fail''" "RetryCount job < MaxRetries job"
    "\<not> retry_fails env" "\<not> status_fails env"
  shows "jobs (w_repo (processJob env job w)) =
           map (\<lambda>q. if j_id q = ID job
                     then q\<lparr>retry_count := retry_count q + 1, status := StatusPending,
                            updated_at := Unix (status_now env)\<rparr>
                     else q) (jobs (w_repo w))"
  using assms
  by (simp add: processJob_def handleJobFailure_def UpdateJobStatus_def IncrementRetryCount_def
        retry_then_pending)

lemma round_leased:
  assumes "LeaseJob io tie now d (w_repo w) = (Inr (Some job), s')"
  shows "ProcessJobs_round io tie now d env w = processJob env job (w\<lparr>w_repo := s'\<rparr>)"
  using assms by (simp add: ProcessJobs_round_def)

section \<open>Retry bound: what each operation keeps\<close>

lemma map_j_id_comp: "(\<And>q. j_id (h q) = j_id q) \<Longrightarrow> map (j_id \<circ> h) rows = map j_id rows"
  by (simp add: comp_def)

lemma retry_inv_update:
  assumes "retry_inv s"
    and "\<And>q. j_id (g q) = j_id q \<and> retry_count (g q) = retry_count q \<and>
              max_retries (g q) = max_retries q"
  shows "retry_inv (s\<lparr>jobs := map (\<lambda>q. if j_id q = i then g q else q) (jobs s)\<rparr>)"
proof -
  let ?h = "\<lambda>q. if j_id q = i then g q else q"
  have ids: "map (j_id \<circ> ?h) (jobs s) = map j_id (jobs s)"
    by (rule map_j_id_comp) (simp add: assms(2))
  have "distinct (map j_id (jobs s))" using assms(1) by (simp add: retry_inv_def)
  then have d: "distinct (map j_id (map ?h (jobs s)))"
    by (simp only: map_map ids)
  have b: "\<forall>r \<in> set (map ?h (jobs s)). 0 \<le> retry_count r \<and> retry_count r \<le> max_retries r"
    using assms by (auto simp: retry_inv_def)
  from d b show ?thesis by (simp add: retry_inv_def)
qed

lemma retry_inv_filter:
  "retry_inv s \<Longrightarrow> retry_inv \<lparr>jobs = filter P (jobs s), dead_letter_jobs = dl\<rparr>"
  by (auto simp: retry_inv_def distinct_map_filter)

lemma retry_inv_LeaseJob: "retry_inv s \<Longrightarrow> retry_inv (snd (LeaseJob io tie now d s))"
  by (auto simp: LeaseJob_def Let_def intro!: retry_inv_update split: option.splits)

lemma retry_inv_UpdateJobStatus: "retry_inv s \<Longrightarrow> retry_inv (snd (UpdateJobStatus f now i st s))"
  by (auto simp: UpdateJobStatus_def intro!: retry_inv_update)

lemma retry_inv_Move:
  "retry_inv s \<Longrightarrow> retry_inv (snd (MoveToDeadLetterQueue io t1 t2 job reason s))"
proof (cases "fst (MoveToDeadLetterQueue io t1 t2 job reason s)")
  case None
  assume "retry_inv s"
  then show ?thesis
    unfolding Move_succeeds_effect [OF None] by (rule retry_inv_filter)
next
  case (Some e)
  assume "retry_inv s"
  with Some show ?thesis by (simp add: Move_fails_unchanged)
qed

lemma retry_inv_Increment:
  assumes "retry_inv s"
    and "\<forall>r \<in> set (jobs s). j_id r = i \<longrightarrow> retry_count r < max_retries r"
  shows "retry_inv (snd (IncrementRetryCount f now i s))"
proof -
  let ?h = "\<lambda>q. if j_id q = i then q\<lparr>retry_count := retry_count q + 1,
                                          updated_at := Unix now\<rparr> else q"
  have ids: "map (j_id \<circ> ?h) (jobs s) = map j_id (jobs s)"
    by (rule map_j_id_comp) simp
  have "distinct (map j_id (jobs s))" using assms(1) by (simp add: retry_inv_def)
  then have d: "distinct (map j_id (map ?h (jobs s)))"
    by (simp only: map_map ids)
  have b: "\<forall>r \<in> set (map ?h (jobs s)). 0 \<le> retry_count r \<and> retry_count r \<le> max_retries r"
    using assms by (auto simp: retry_inv_def)
  from d b assms(1) show ?thesis by (simp add: retry_inv_def IncrementRetryCount_def)
qed

lemma same_id_same_row:
  "distinct (map j_id rows) \<Longrightarrow> q \<in> set rows \<Longrightarrow> r \<in> set rows \<Longrightarrow> j_id q = j_id r \<Longrightarrow> q = r"
  by (meson distinct_map inj_onD)

lemma retry_inv_processJob:
  assumes inv: "retry_inv (w_repo w)"
    and snap: "\<forall>r \<in> set (jobs (w_repo w)). j_id r = ID job \<longrightarrow>
                 retry_count r = RetryCount job \<and> max_retries r = MaxRetries job"
  shows "retry_inv (w_repo (processJob env job w))"
proof (cases "Payload job = ''fail''")
  case False
  then have "w_repo (processJob env job w) =
          snd (UpdateJobStatus (status_fails env) (status_now env) (ID job) StatusDone (w_repo w))"
    by (simp add: processJob_def case_prod_beta)
  with inv show ?thesis by (simp add: retry_inv_UpdateJobStatus)
next
  case True
  show ?thesis
  proof (cases "RetryCount job < MaxRetries job")
    case lt: True
    let ?i = "IncrementRetryCount (retry_fails env) (retry_now env) (ID job) (w_repo w)"
    from snap lt have "\<forall>r \<in> set (jobs (w_repo w)). j_id r = ID job \<longrightarrow>
                         retry_count r < max_retries r"
      by simp
    with inv have i: "retry_inv (snd ?i)" by (rule retry_inv_Increment)
    have "w_repo (processJob env job w) = snd ?i \<or>
        w_repo (processJob env job w) =
          snd (UpdateJobStatus (status_fails env) (status_now env) (ID job) StatusPending (snd ?i))"
      using True lt by (simp add: processJob_def handleJobFailure_def case_prod_beta)
    with i show ?thesis by (auto simp: retry_inv_UpdateJobStatus)
  next
    case False
    with True have "w_repo (processJob env job w) =
        snd (MoveToDeadLetterQueue (move_fault env) (move_now_id env) (move_now_failed env) job
                (''max retries exceeded: '' @ payload_is_fail) (w_repo w))"
      by (simp add: processJob_def handleJobFailure_def case_prod_beta)
    with inv show ?thesis by (simp add: retry_inv_Move)
  qed
qed

lemma retry_inv_round:
  assumes inv: "retry_inv (w_repo w)"
  shows "retry_inv (w_repo (ProcessJobs_round io tie now d env w))"
proof (cases "LeaseJob io tie now d (w_repo w)")
  case (Pair res s')
  from inv have inv': "retry_inv s'"
    using retry_inv_LeaseJob [of "w_repo w" io tie now d] Pair by simp
  show ?thesis
  proof (cases res)
    case (Inl e)
    with Pair inv' show ?thesis by (simp add: ProcessJobs_round_def)
  next
    case (Inr leased)
    show ?thesis
    proof (cases leased)
      case None
      with Pair Inr inv' show ?thesis by (simp add: ProcessJobs_round_def)
    next
      case (Some job)
      with Pair Inr have l: "LeaseJob io tie now d (w_repo w) = (Inr (Some job), s')" by simp
      note ls = LeaseJob_Some [OF l]
      from ls(1) obtain r where r: "r \<in> set (jobs (w_repo w))" "j_id r = ID job"
        "RetryCount job = retry_count r" "MaxRetries job = max_retries r"
        by blast
      from inv have dist: "distinct (map j_id (jobs (w_repo w)))" by (simp add: retry_inv_def)
      have snap: "\<forall>p \<in> set (jobs s'). j_id p = ID job \<longrightarrow>
                 retry_count p = RetryCount job \<and> max_retries p = MaxRetries job"
      proof (intro ballI impI)
        fix p assume "p \<in> set (jobs s')" and pi: "j_id p = ID job"
        then have "p \<in> (\<lambda>x. if j_id x = ID job
                            then x\<lparr>status := StatusRunning, leased_at := Some (Unix now),
                                   lease_expires_at := Some (Unix (now + d)),
                                   updated_at := Unix now\<rparr>
                            else x) ` set (jobs (w_repo w))"
          unfolding ls(2) by (simp only: set_map)
        then obtain x where x: "x \<in> set (jobs (w_repo w))" and px: "p = (if j_id x = ID job
                            then x\<lparr>status := StatusRunning, leased_at := Some (Unix now),
                                   lease_expires_at := Some (Unix (now + d)),
                                   updated_at := Unix now\<rparr>
                            else x)"
          by (rule imageE)
        from px pi have xi: "j_id x = ID job" by (simp split: if_splits)
        with r x dist have "x = r" by (auto intro: same_id_same_row)
        with px xi r show "retry_count p = RetryCount job \<and> max_retries p = MaxRetries job"
          by simp
      qed
      have "retry_inv (w_repo (processJob env job (w\<lparr>w_repo := s'\<rparr>)))"
        by (rule retry_inv_processJob) (use inv' snap in simp_all)
      then show ?thesis by (simp add: round_leased [OF l])
    qed
  qed
qed

lemma repo_insert:
  "repo (snd (JobService_CreateJob_insert env job svc)) =
   snd (snd (CreateJob (create_fails env) (create_now env) job (repo svc)))"
  by (simp add: JobService_CreateJob_insert_def split: prod.split option.split sum.split)

lemma repo_CreateJob:
  "repo (snd (JobService_CreateJob env req svc)) = repo svc \<or>
   repo (snd (JobService_CreateJob env req svc)) =
     snd (snd (CreateJob (create_fails env) (create_now env)
        \<lparr>ID = uuid_New env, TenantID = req_TenantID req,
         IdempotencyKey = req_IdempotencyKey req, Payload = req_Payload req,
         Status = StatusPending,
         MaxRetries = (case req_MaxRetries req of None \<Rightarrow> 3 | Some m \<Rightarrow> m), RetryCount = 0,
         LeasedAt = None, LeaseExpiresAt = None, CreatedAt = zeroTime, UpdatedAt = zeroTime\<rparr>
        (repo svc)))"
  by (simp add: JobService_CreateJob_def Let_def repo_insert split: prod.split option.split sum.split)

lemma admitted_row:
  "jobs (repo (snd (JobService_CreateJob env req svc))) = jobs (repo svc) \<or>
   (\<exists>row. jobs (repo (snd (JobService_CreateJob env req svc))) = jobs (repo svc) @ [row] \<and>
          j_id row = uuid_New env \<and> j_id row \<notin> j_id ` set (jobs (repo svc)) \<and>
          status row = StatusPending \<and> retry_count row = 0 \<and>
          max_retries row = (case req_MaxRetries req of None \<Rightarrow> 3 | Some m \<Rightarrow> m))"
  using repo_CreateJob [of env req svc]
    CreateJob_store_effect [of "create_fails env" "create_now env"
        "\<lparr>ID = uuid_New env, TenantID = req_TenantID req,
         IdempotencyKey = req_IdempotencyKey req, Payload = req_Payload req,
         Status = StatusPending,
         MaxRetries = (case req_MaxRetries req of None \<Rightarrow> 3 | Some m \<Rightarrow> m), RetryCount = 0,
         LeasedAt = None, LeaseExpiresAt = None, CreatedAt = zeroTime, UpdatedAt = zeroTime\<rparr>"
        "repo svc"]
  by (elim disjE exE conjE) simp_all

lemma retry_inv_submit:
  assumes "retry_inv (repo svc)" and "\<forall>m. req_MaxRetries req = Some m \<longrightarrow> 0 \<le> m"
  shows "retry_inv (repo (snd (JobService_CreateJob env req svc)))"
proof -
  from assms(2) have m: "(0::int) \<le> (case req_MaxRetries req of None \<Rightarrow> 3 | Some m \<Rightarrow> m)"
    by (simp split: option.split)
  from admitted_row [of env req svc] show ?thesis
  proof (elim disjE exE conjE)
    assume "jobs (repo (snd (JobService_CreateJob env req svc))) = jobs (repo svc)"
    with assms(1) show ?thesis by (simp add: retry_inv_def)
  next
    fix row
    assume "jobs (repo (snd (JobService_CreateJob env req svc))) = jobs (repo svc) @ [row]"
      "j_id row \<notin> j_id ` set (jobs (repo svc))" "retry_count row = 0"
      "max_retries row = (case req_MaxRetries req of None \<Rightarrow> 3 | Some m \<Rightarrow> m)"
    with assms(1) m show ?thesis by (auto simp: retry_inv_def)
  qed
qed

section \<open>Reachable stores\<close>

lemma admitted_row_fields:
  "jobs (repo (snd (JobService_CreateJob env req svc))) = jobs (repo svc) \<or>
   (\<exists>row. jobs (repo (snd (JobService_CreateJob env req svc))) = jobs (repo svc) @ [row] \<and>
          j_id row = uuid_New env \<and> status row = StatusPending \<and> retry_count row = 0 \<and>
          max_retries row = (case req_MaxRetries req of None \<Rightarrow> 3 | Some m \<Rightarrow> m) \<and>
          leased_at row = None \<and> lease_expires_at row = None)"
  using repo_CreateJob [of env req svc]
    CreateJob_store_effect [of "create_fails env" "create_now env"
        "\<lparr>ID = uuid_New env, TenantID = req_TenantID req,
         IdempotencyKey = req_IdempotencyKey req, Payload = req_Payload req,
         Status = StatusPending,
         MaxRetries = (case req_MaxRetries req of None \<Rightarrow> 3 | Some m \<Rightarrow> m), RetryCount = 0,
         LeasedAt = None, LeaseExpiresAt = None, CreatedAt = zeroTime, UpdatedAt = zeroTime\<rparr>"
        "repo svc"]
  by (elim disjE exE conjE) simp_all

lemma Move_rows:
  "jobs (snd (MoveToDeadLetterQueue io t1 t2 job reason s)) = jobs s \<or>
   jobs (snd (MoveToDeadLetterQueue io t1 t2 job reason s)) =
     filter (\<lambda>q. j_id q \<noteq> ID job) (jobs s)"
proof (cases "fst (MoveToDeadLetterQueue io t1 t2 job reason s)")
  case None
  show ?thesis unfolding Move_succeeds_effect [OF None] by simp
next
  case (Some e)
  then show ?thesis by (simp add: Move_fails_unchanged)
qed

lemma LeaseJob_rows:
  "snd (LeaseJob io tie now d s) = s \<or>
   (\<exists>job. fst (LeaseJob io tie now d s) = Inr (Some job) \<and>
      ID job \<in> j_id ` set (jobs s) \<and>
      snd (LeaseJob io tie now d s) =
        s\<lparr>jobs := map (\<lambda>q. if j_id q = ID job
                            then q\<lparr>status := StatusRunning, leased_at := Some (Unix now),
                                   lease_expires_at := Some (Unix (now + d)),
                                   updated_at := Unix now\<rparr>
                            else q) (jobs s)\<rparr>)"
proof (cases "LeaseJob io tie now d s")
  case (Pair res s')
  show ?thesis
  proof (cases "\<exists>job. res = Inr (Some job)")
    case True
    then obtain job where j: "res = Inr (Some job)" by blast
    with Pair have l: "LeaseJob io tie now d s = (Inr (Some job), s')" by simp
    note ls = LeaseJob_Some [OF l]
    from ls(1) have "ID job \<in> j_id ` set (jobs s)" by force
    moreover from ls(2,3) have "s' = s\<lparr>jobs := map (\<lambda>q. if j_id q = ID job
                            then q\<lparr>status := StatusRunning, leased_at := Some (Unix now),
                                   lease_expires_at := Some (Unix (now + d)),
                                   updated_at := Unix now\<rparr>
                            else q) (jobs s)\<rparr>"
      by (cases s, cases s') simp
    ultimately show ?thesis using l by auto
  next
    case False
    with Pair have "s' = s"
      by (auto simp: LeaseJob_def Let_def split: if_splits option.splits)
    with Pair show ?thesis by simp
  qed
qed

lemma reachable_rows:
  "reachable s L \<Longrightarrow>
   \<forall>r \<in> set (jobs s). 0 \<le> retry_count r \<and>
      (leased_at r = None \<longleftrightarrow> lease_expires_at r = None) \<and>
      (j_id r \<notin> ID ` L \<longrightarrow> leased_at r = None \<and> lease_expires_at r = None)"
proof (induction rule: reachable.induct)
  case start
  show ?case by simp
next
  case (submit svc L env req)
  from admitted_row_fields [of env req svc] submit.IH show ?case
    by (elim disjE exE conjE) auto
next
  case (lease s L io tie now d job s')
  from LeaseJob_Some(2) [OF lease.hyps(2)] lease.IH show ?case
    by auto
next
  case (set_status s L job f now st)
  then show ?case by (auto simp: UpdateJobStatus_def)
next
  case (bump_retry s L job f now)
  then show ?case by (auto simp: IncrementRetryCount_def)
next
  case (move s L job io now_id now_failed reason)
  from Move_rows [of io now_id now_failed job reason s] move.IH show ?case
    by (elim disjE) auto
qed

text \<open>What the worker code does stays inside \<open>reachable\<close>.\<close>

lemma reachable_processJob:
  assumes r: "reachable (w_repo w) L" and j: "job \<in> L"
  shows "reachable (w_repo (processJob env job w)) L"
proof (cases "Payload job = ''fail''")
  case False
  then have "w_repo (processJob env job w) =
          snd (UpdateJobStatus (status_fails env) (status_now env) (ID job) StatusDone (w_repo w))"
    by (simp add: processJob_def case_prod_beta)
  with reachable.set_status [OF r j] show ?thesis by simp
next
  case True
  show ?thesis
  proof (cases "RetryCount job < MaxRetries job")
    case lt: True
    let ?i = "IncrementRetryCount (retry_fails env) (retry_now env) (ID job) (w_repo w)"
    have i: "reachable (snd ?i) L" by (rule reachable.bump_retry [OF r j])
    have "w_repo (processJob env job w) = snd ?i \<or>
        w_repo (processJob env job w) =
          snd (UpdateJobStatus (status_fails env) (status_now env) (ID job) StatusPending (snd ?i))"
      using True lt by (simp add: processJob_def handleJobFailure_def case_prod_beta)
    with i reachable.set_status [OF i j] show ?thesis by auto
  next
    case False
    with True have "w_repo (processJob env job w) =
        snd (MoveToDeadLetterQueue (move_fault env) (move_now_id env) (move_now_failed env) job
                (''max retries exceeded: '' @ payload_is_fail) (w_repo w))"
      by (simp add: processJob_def handleJobFailure_def case_prod_beta)
    with reachable.move [OF r j] show ?thesis by simp
  qed
qed

lemma reachable_round:
  assumes r: "reachable (w_repo w) L"
  shows "\<exists>L'. L \<subseteq> L' \<and> reachable (w_repo (ProcessJobs_round io tie now d env w)) L'"
proof (cases "LeaseJob io tie now d (w_repo w)")
  case (Pair res s')
  show ?thesis
  proof (cases "\<exists>job. res = Inr (Some job)")
    case True
    then obtain job where "res = Inr (Some job)" by blast
    with Pair have l: "LeaseJob io tie now d (w_repo w) = (Inr (Some job), s')" by simp
    have "reachable s' (insert job L)" by (rule reachable.lease [OF r l])
    then have "reachable (w_repo (w\<lparr>w_repo := s'\<rparr>)) (insert job L)" by simp
    then have "reachable (w_repo (processJob env job (w\<lparr>w_repo := s'\<rparr>))) (insert job L)"
      by (rule reachable_processJob) simp
    then show ?thesis unfolding round_leased [OF l] by blast
  next
    case False
    with Pair LeaseJob_rows [of io tie now d "w_repo w"] have "s' = w_repo w" by auto
    moreover from False Pair have "ProcessJobs_round io tie now d env w = w\<lparr>w_repo := s'\<rparr>"
      by (cases res) (auto simp: ProcessJobs_round_def split: option.splits)
    ultimately show ?thesis using r by auto
  qed
qed

section \<open>Lease timestamps are never cleared\<close>

text \<open>
  The claim C4 as stated fails: one worker round on a store holding one PENDING job
  (leased at second 20 for 30 s, processed with success at second 23) leaves the row in
  status DONE with leased_at = 20 and lease_expires_at = 50 still present.
\<close>

theorem C4_counterexample:
  "w_repo (ProcessJobs_round None 0 (20 * Second) (30 * Second) penv worker1) =
     \<lparr>jobs = [ex_row\<lparr>status := StatusDone, leased_at := Some 20, lease_expires_at := Some 50,
                     updated_at := 23\<rparr>],
      dead_letter_jobs = []\<rparr>"
proof -
  have u: "Unix (20 * Second) = 20" "Unix (50 * Second) = 50" "Unix (23 * Second) = 23"
    by (simp_all add: Unix_def Second_def)
  show ?thesis
    by (simp add: ProcessJobs_round_def LeaseJob_def Let_def leasable_def oldest_single processJob_def
          UpdateJobStatus_def scan_job_def penv_def worker1_def ex_store_def ex_row_def u)
qed

lemma round_keeps_lease:
  assumes l: "LeaseJob None tie now d (w_repo w) = (Inr (Some job), s')"
    and ok: "\<not> retry_fails env" "\<not> status_fails env"
    and keep: "Payload job \<noteq> ''fail'' \<or> RetryCount job < MaxRetries job"
  shows "ID job \<in> j_id ` set (jobs (w_repo (ProcessJobs_round None tie now d env w))) \<and>
      (\<forall>q \<in> set (jobs (w_repo (ProcessJobs_round None tie now d env w))).
         j_id q = ID job \<longrightarrow>
           status q = (if Payload job = ''fail'' then StatusPending else StatusDone) \<and>
           leased_at q = Some (Unix now) \<and>
           lease_expires_at q = Some (Unix (now + d)))"
proof (intro conjI)
  let ?w' = "ProcessJobs_round None tie now d env w"
  have rd: "?w' = processJob env job (w\<lparr>w_repo := s'\<rparr>)"
    by (rule round_leased [OF l])
  note ls = LeaseJob_Some [OF l]
  have js: "jobs (w_repo ?w') =
      map (\<lambda>q. if j_id q = ID job
                then (if Payload job = ''fail''
                      then q\<lparr>retry_count := retry_count q + 1, status := StatusPending,
                             updated_at := Unix (status_now env)\<rparr>
                      else q\<lparr>status := StatusDone, updated_at := Unix (status_now env)\<rparr>)
                else q) (jobs s')"
    using keep ok rd processJob_jobs_done [of job env "w\<lparr>w_repo := s'\<rparr>"]
      processJob_jobs_retry [of job env "w\<lparr>w_repo := s'\<rparr>"]
    by (cases "Payload job = ''fail''") simp_all
  from ls(1) obtain r where r: "r \<in> set (jobs (w_repo w))" "j_id r = ID job" by blast
  show "ID job \<in> j_id ` set (jobs (w_repo ?w'))"
  proof -
    have "j_id ` set (jobs (w_repo ?w')) = j_id ` set (jobs s')"
      unfolding js by (rule ids_update) simp
    also have "\<dots> = j_id ` set (jobs (w_repo w))"
      unfolding ls(2) by (rule ids_update) simp
    finally show ?thesis using r by force
  qed
  show "\<forall>q \<in> set (jobs (w_repo ?w')). j_id q = ID job \<longrightarrow>
           status q = (if Payload job = ''fail'' then StatusPending else StatusDone) \<and>
           leased_at q = Some (Unix now) \<and>
           lease_expires_at q = Some (Unix (now + d))"
  proof (intro ballI impI)
    fix q assume q: "q \<in> set (jobs (w_repo ?w'))" and i: "j_id q = ID job"
    from q have "q \<in> (\<lambda>p. if j_id p = ID job
                then (if Payload job = ''fail''
                      then p\<lparr>retry_count := retry_count p + 1, status := StatusPending,
                             updated_at := Unix (status_now env)\<rparr>
                      else p\<lparr>status := StatusDone, updated_at := Unix (status_now env)\<rparr>)
                else p) ` set (jobs s')"
      unfolding js by (simp only: set_map)
    then obtain p where p: "p \<in> set (jobs s')" and qp: "q = (if j_id p = ID job
                then (if Payload job = ''fail''
                      then p\<lparr>retry_count := retry_count p + 1, status := StatusPending,
                             updated_at := Unix (status_now env)\<rparr>
                      else p\<lparr>status := StatusDone, updated_at := Unix (status_now env)\<rparr>)
                else p)"
      by (rule imageE)
    from qp i have pi: "j_id p = ID job" by (simp split: if_splits)
    from p have "p \<in> (\<lambda>x. if j_id x = ID job
                            then x\<lparr>status := StatusRunning, leased_at := Some (Unix now),
                                   lease_expires_at := Some (Unix (now + d)),
                                   updated_at := Unix now\<rparr>
                            else x) ` set (jobs (w_repo w))"
      unfolding ls(2) by (simp only: set_map)
    then obtain x where x: "x \<in> set (jobs (w_repo w))" and px: "p = (if j_id x = ID job
                            then x\<lparr>status := StatusRunning, leased_at := Some (Unix now),
                                   lease_expires_at := Some (Unix (now + d)),
                                   updated_at := Unix now\<rparr>
                            else x)"
      by (rule imageE)
    from px pi have xi: "j_id x = ID job" by (simp split: if_splits)
    from qp pi px xi
    show "status q = (if Payload job = ''fail'' then StatusPending else StatusDone) \<and>
           leased_at q = Some (Unix now) \<and>
           lease_expires_at q = Some (Unix (now + d))"
      by simp
  qed
qed

text \<open>
  C4 (amended). leased_at and lease_expires_at are not tied to status RUNNING: once a
  lease has set them, nothing clears them. CreateJob inserts a row with both absent.
  LeaseJob sets both on the row it leases and touches no other row. UpdateJobStatus and
  IncrementRetryCount leave both columns of every row as they are, and
  MoveToDeadLetterQueue only deletes rows. So processJob, whenever it keeps the row
  (success, or failure with retry_count < max_retries), leaves both columns unchanged,
  and after a worker round that leased a job and took it out of RUNNING, to DONE after
  success or to PENDING for a retry, the row is still there with the leased_at and
  lease_expires_at that the lease set. In every reachable store a row has both
  timestamps or neither, and a row whose id no lease has handed out has neither.
\<close>

theorem C4_lease_timestamps_persist:
  "(jobs (snd (snd (CreateJob f t j s))) = jobs s \<or>
    (\<exists>row. jobs (snd (snd (CreateJob f t j s))) = jobs s @ [row] \<and> j_id row = ID j \<and>
           leased_at row = None \<and> lease_expires_at row = None)) \<and>
   (snd (LeaseJob lio tie now d s) = s \<or>
    (\<exists>leased. fst (LeaseJob lio tie now d s) = Inr (Some leased) \<and>
       ID leased \<in> j_id ` set (jobs s) \<and>
       snd (LeaseJob lio tie now d s) =
         s\<lparr>jobs := map (\<lambda>q. if j_id q = ID leased
                             then q\<lparr>status := StatusRunning, leased_at := Some (Unix now),
                                    lease_expires_at := Some (Unix (now + d)),
                                    updated_at := Unix now\<rparr>
                             else q) (jobs s)\<rparr>)) \<and>
   map (\<lambda>q. (j_id q, leased_at q, lease_expires_at q)) (jobs (snd (UpdateJobStatus f t i st s)))
     = map (\<lambda>q. (j_id q, leased_at q, lease_expires_at q)) (jobs s) \<and>
   map (\<lambda>q. (j_id q, leased_at q, lease_expires_at q)) (jobs (snd (IncrementRetryCount f t i s)))
     = map (\<lambda>q. (j_id q, leased_at q, lease_expires_at q)) (jobs s) \<and>
   (jobs (snd (MoveToDeadLetterQueue mio t1 t2 job reason s)) = jobs s \<or>
    jobs (snd (MoveToDeadLetterQueue mio t1 t2 job reason s)) =
      filter (\<lambda>q. j_id q \<noteq> ID job) (jobs s)) \<and>
   (Payload job \<noteq> ''fail'' \<or> RetryCount job < MaxRetries job \<longrightarrow>
      map (\<lambda>q. (j_id q, leased_at q, lease_expires_at q)) (jobs (w_repo (processJob env job w)))
        = map (\<lambda>q. (j_id q, leased_at q, lease_expires_at q)) (jobs (w_repo w))) \<and>
   (LeaseJob None tie now d (w_repo w) = (Inr (Some job), s') \<and>
    \<not> retry_fails env \<and> \<not> status_fails env \<and>
    (Payload job \<noteq> ''fail'' \<or> RetryCount job < MaxRetries job) \<longrightarrow>
      ID job \<in> j_id ` set (jobs (w_repo (ProcessJobs_round None tie now d env w))) \<and>
      (\<forall>q \<in> set (jobs (w_repo (ProcessJobs_round None tie now d env w))).
         j_id q = ID job \<longrightarrow>
           status q = (if Payload job = ''fail'' then StatusPending else StatusDone) \<and>
           leased_at q = Some (Unix now) \<and>
           lease_expires_at q = Some (Unix (now + d)))) \<and>
   (reachable rs L \<longrightarrow>
      (\<forall>r \<in> set (jobs rs).
         (leased_at r = None \<longleftrightarrow> lease_expires_at r = None) \<and>
         (j_id r \<notin> ID ` L \<longrightarrow> leased_at r = None \<and> lease_expires_at r = None)))"
proof -
  have c1: "jobs (snd (snd (CreateJob f t j s))) = jobs s \<or>
    (\<exists>row. jobs (snd (snd (CreateJob f t j s))) = jobs s @ [row] \<and> j_id row = ID j \<and>
           leased_at row = None \<and> lease_expires_at row = None)"
    using CreateJob_store_effect [of f t j s] by (elim disjE exE conjE) simp_all
  note c2 = LeaseJob_rows [of lio tie now d s]
  note c3 = UpdateJobStatus_lease_columns [of f t i st s]
  note c4 = IncrementRetryCount_lease_columns [of f t i s]
  note c5 = Move_rows [of mio t1 t2 job reason s]
  have c6: "Payload job \<noteq> ''fail'' \<or> RetryCount job < MaxRetries job \<longrightarrow>
      map (\<lambda>q. (j_id q, leased_at q, lease_expires_at q)) (jobs (w_repo (processJob env job w)))
        = map (\<lambda>q. (j_id q, leased_at q, lease_expires_at q)) (jobs (w_repo w))"
    using processJob_lease_columns by blast
  have c7: "LeaseJob None tie now d (w_repo w) = (Inr (Some job), s') \<and>
    \<not> retry_fails env \<and> \<not> status_fails env \<and>
    (Payload job \<noteq> ''fail'' \<or> RetryCount job < MaxRetries job) \<longrightarrow>
      ID job \<in> j_id ` set (jobs (w_repo (ProcessJobs_round None tie now d env w))) \<and>
      (\<forall>q \<in> set (jobs (w_repo (ProcessJobs_round None tie now d env w))).
         j_id q = ID job \<longrightarrow>
           status q = (if Payload job = ''fail'' then StatusPending else StatusDone) \<and>
           leased_at q = Some (Unix now) \<and>
           lease_expires_at q = Some (Unix (now + d)))"
    using round_keeps_lease [of tie now d w job s' env] by blast
  have c8: "reachable rs L \<longrightarrow>
      (\<forall>r \<in> set (jobs rs).
         (leased_at r = None \<longleftrightarrow> lease_expires_at r = None) \<and>
         (j_id r \<notin> ID ` L \<longrightarrow> leased_at r = None \<and> lease_expires_at r = None))"
    using reachable_rows [of rs L] by blast
  from c1 c2 c3 c4 c5 c6 c7 c8 show ?thesis by (intro conjI)
qed

theorem C4_witness:
  "''a'' \<in> j_id ` set (jobs (w_repo (ProcessJobs_round None 0 (20 * Second) (30 * Second) penv worker1))) \<and>
   list_all (\<lambda>q. j_id q = ''a'' \<longrightarrow>
               status q = StatusDone \<and> leased_at q = Some 20 \<and> lease_expires_at q = Some 50)
     (jobs (w_repo (ProcessJobs_round None 0 (20 * Second) (30 * Second) penv worker1))) \<and>
   map (\<lambda>q. (j_id q, leased_at q, lease_expires_at q)) (jobs (w_repo (processJob penv job_b worker0)))
     = [(''b'', Some 5, Some 15), (''c'', Some 18, Some 48), (''f'', Some 19, Some 49)] \<and>
   reachable (repo (snd (JobService_CreateJob ex_env zero_req svc0))) {} \<and>
   length (jobs (repo (snd (JobService_CreateJob ex_env zero_req svc0)))) = 1 \<and>
   list_all (\<lambda>r. leased_at r = None \<and> lease_expires_at r = None)
     (jobs (repo (snd (JobService_CreateJob ex_env zero_req svc0))))"
proof -
  let ?job = "\<lparr>ID = ''a'', TenantID = ''t'', IdempotencyKey = ''k1'', Payload = ''A'',
               Status = StatusRunning, MaxRetries = 3, RetryCount = 0,
               LeasedAt = Some (20 * Second), LeaseExpiresAt = Some (20 * Second + 30 * Second),
               CreatedAt = time_Unix 10, UpdatedAt = 20 * Second\<rparr>"
  let ?s' = "\<lparr>jobs = [ex_row\<lparr>status := StatusRunning, leased_at := Some 20,
                               lease_expires_at := Some 50, updated_at := 20\<rparr>],
              dead_letter_jobs = []\<rparr>"
  let ?R = "repo (snd (JobService_CreateJob ex_env zero_req svc0))"
  have u: "Unix (20 * Second) = 20" "Unix (50 * Second) = 50"
          "Unix (20 * Second + 30 * Second) = 50"
    by (simp_all add: Unix_def Second_def)
  have l: "LeaseJob None 0 (20 * Second) (30 * Second) (w_repo worker1) = (Inr (Some ?job), ?s')"
    by (simp add: LeaseJob_def Let_def leasable_def oldest_single scan_job_def worker1_def
          ex_store_def ex_row_def u)
  have e: "\<not> retry_fails penv" "\<not> status_fails penv" by (simp_all add: penv_def)
  have p: "Payload ?job \<noteq> ''fail''" "ID ?job = ''a''" by simp_all
  from C4_lease_timestamps_persist [where job = ?job and tie = 0 and now = "20 * Second"
        and d = "30 * Second" and w = worker1 and s' = ?s' and env = penv,
        THEN conjunct2, THEN conjunct2, THEN conjunct2, THEN conjunct2, THEN conjunct2,
        THEN conjunct2, THEN conjunct1] l e p(1)
  have "ID ?job \<in> j_id ` set (jobs (w_repo (ProcessJobs_round None 0 (20 * Second) (30 * Second) penv worker1))) \<and>
      (\<forall>q \<in> set (jobs (w_repo (ProcessJobs_round None 0 (20 * Second) (30 * Second) penv worker1))).
         j_id q = ID ?job \<longrightarrow>
           status q = (if Payload ?job = ''fail'' then StatusPending else StatusDone) \<and>
           leased_at q = Some (Unix (20 * Second)) \<and>
           lease_expires_at q = Some (Unix (20 * Second + 30 * Second)))"
    by blast
  then have a: "''a'' \<in> j_id ` set (jobs (w_repo (ProcessJobs_round None 0 (20 * Second) (30 * Second) penv worker1))) \<and>
   list_all (\<lambda>q. j_id q = ''a'' \<longrightarrow>
               status q = StatusDone \<and> leased_at q = Some 20 \<and> lease_expires_at q = Some 50)
     (jobs (w_repo (ProcessJobs_round None 0 (20 * Second) (30 * Second) penv worker1)))"
    unfolding u by (simp add: list_all_iff)
  have "Payload job_b \<noteq> ''fail''" by (simp add: job_b_def)
  with C4_lease_timestamps_persist [where job = job_b and w = worker0 and env = penv,
        THEN conjunct2, THEN conjunct2, THEN conjunct2, THEN conjunct2, THEN conjunct2,
        THEN conjunct1]
  have "map (\<lambda>q. (j_id q, leased_at q, lease_expires_at q)) (jobs (w_repo (processJob penv job_b worker0)))
        = map (\<lambda>q. (j_id q, leased_at q, lease_expires_at q)) (jobs (w_repo worker0))"
    by blast
  then have b: "map (\<lambda>q. (j_id q, leased_at q, lease_expires_at q))
        (jobs (w_repo (processJob penv job_b worker0)))
     = [(''b'', Some 5, Some 15), (''c'', Some 18, Some 48), (''f'', Some 19, Some 49)]"
    by (simp add: worker0_def row_b_def row_c_def row_f_def)
  have r0: "reachable (repo svc0) {}" by (simp add: svc0_def reachable.start)
  have r1: "reachable ?R {}" by (rule reachable.submit [OF r0])
  have n: "length (jobs ?R) = 1"
    by (simp add: JobService_CreateJob_def JobService_CreateJob_insert_def CheckSubmissionRate_def
        GetRunningJobsCountByTenant_def CheckConcurrentLimit_def CreateJob_def insert_job_def
        Let_def ex_env_def zero_req_def svc0_def NewRateLimiter_def)
  from C4_lease_timestamps_persist [where rs = ?R and L = "{}",
        THEN conjunct2, THEN conjunct2, THEN conjunct2, THEN conjunct2, THEN conjunct2,
        THEN conjunct2, THEN conjunct2] r1
  have "\<forall>r \<in> set (jobs ?R).
         (leased_at r = None \<longleftrightarrow> lease_expires_at r = None) \<and>
         (j_id r \<notin> ID ` {} \<longrightarrow> leased_at r = None \<and> lease_expires_at r = None)"
    by blast
  then have c: "list_all (\<lambda>r. leased_at r = None \<and> lease_expires_at r = None) (jobs ?R)"
    by (simp add: list_all_iff)
  from a b r1 n c show ?thesis by (intro conjI) simp_all
qed

section \<open>Retry bound of reachable rows\<close>

text \<open>
  The claim C2 as stated fails in two ways. CreateJob takes max_retries from the request
  unchecked: a request with max_retries = -1 is admitted next to the stored job a, and
  its row b has retry_count 0 above max_retries -1. And with max_retries = 1: job j is
  admitted, leased by worker A at second 10 for 30 s and, the lease having expired,
  leased again by worker B at second 41; both workers hold a snapshot with
  retry_count 0, both handlers fail, both see 0 < 1 and increment, and the row ends
  with retry_count 2 above max_retries 1.
\<close>

theorem C2_counterexample:
  "map (\<lambda>r. (j_id r, retry_count r, max_retries r))
       (jobs (repo (snd (JobService_CreateJob ex_env neg_req ex_svc))))
     = [(''a'', 0, 3), (''b'', 0, - 1)] \<and>
   repo (snd (JobService_CreateJob one_env one_req svc0)) = fail_store \<and>
   fst (LeaseJob None 0 (10 * Second) (30 * Second) fail_store) = Inr (Some snapshot_A) \<and>
   fst (LeaseJob None 0 (41 * Second) (30 * Second)
          (snd (LeaseJob None 0 (10 * Second) (30 * Second) fail_store))) = Inr (Some snapshot_B) \<and>
   map (\<lambda>r. (j_id r, retry_count r, max_retries r))
       (jobs (w_repo (processJob late_env snapshot_B (processJob late_env snapshot_A
          \<lparr>w_repo = snd (LeaseJob None 0 (41 * Second) (30 * Second)
                      (snd (LeaseJob None 0 (10 * Second) (30 * Second) fail_store))),
           w_metrics = NewMetrics\<rparr>))))
     = [(''j'', 2, 1)]"
proof -
  have u: "Unix (1 * Second) = 1" "Unix Second = 1" "Unix (10 * Second) = 10" "Unix (40 * Second) = 40"
    "Unix (41 * Second) = 41" "Unix (71 * Second) = 71" "Unix (42 * Second) = 42"
    "Unix (43 * Second) = 43"
    by (simp_all add: Unix_def Second_def)
  have 1: "map (\<lambda>r. (j_id r, retry_count r, max_retries r))
       (jobs (repo (snd (JobService_CreateJob ex_env neg_req ex_svc))))
     = [(''a'', 0, 3), (''b'', 0, - 1)]"
    by (simp add: JobService_CreateJob_def JobService_CreateJob_insert_def CheckSubmissionRate_def
        GetRunningJobsCountByTenant_def CheckConcurrentLimit_def CreateJob_def insert_job_def
        Let_def ex_env_def neg_req_def ex_svc_def ex_store_def ex_row_def NewRateLimiter_def)
  have 2: "repo (snd (JobService_CreateJob one_env one_req svc0)) = fail_store"
    by (simp add: JobService_CreateJob_def JobService_CreateJob_insert_def CheckSubmissionRate_def
        GetRunningJobsCountByTenant_def CheckConcurrentLimit_def CreateJob_def insert_job_def
        Let_def one_env_def one_req_def svc0_def fail_store_def NewRateLimiter_def u)
  let ?s1 = "\<lparr>jobs = [\<lparr>j_id = ''j'', tenant_id = ''u'', idempotency_key = None,
               payload = ''fail'', status = StatusRunning, max_retries = 1, retry_count = 0,
               leased_at = Some 10, lease_expires_at = Some 40, created_at = 1,
               updated_at = 10\<rparr>],
      dead_letter_jobs = []\<rparr>"
  let ?s2 = "\<lparr>jobs = [\<lparr>j_id = ''j'', tenant_id = ''u'', idempotency_key = None,
               payload = ''fail'', status = StatusRunning, max_retries = 1, retry_count = 0,
               leased_at = Some 41, lease_expires_at = Some 71, created_at = 1,
               updated_at = 41\<rparr>],
      dead_letter_jobs = []\<rparr>"
  have a: "LeaseJob None 0 (10 * Second) (30 * Second) fail_store = (Inr (Some snapshot_A), ?s1)"
    by (simp add: LeaseJob_def Let_def leasable_def oldest_single scan_job_def fail_store_def
          snapshot_A_def u)
  have b: "LeaseJob None 0 (41 * Second) (30 * Second) ?s1 = (Inr (Some snapshot_B), ?s2)"
    by (simp add: LeaseJob_def Let_def leasable_def oldest_single scan_job_def snapshot_B_def u)
  have pa: "processJob late_env snapshot_A \<lparr>w_repo = ?s2, w_metrics = NewMetrics\<rparr> =
     \<lparr>w_repo = \<lparr>jobs = [\<lparr>j_id = ''j'', tenant_id = ''u'', idempotency_key = None,
               payload = ''fail'', status = StatusPending, max_retries = 1, retry_count = 1,
               leased_at = Some 41, lease_expires_at = Some 71, created_at = 1,
               updated_at = 43\<rparr>], dead_letter_jobs = []\<rparr>,
      w_metrics = IncrementRetriedJobs NewMetrics\<rparr>"
    by (simp add: processJob_def handleJobFailure_def IncrementRetryCount_def UpdateJobStatus_def
          late_env_def snapshot_A_def u)
  have pb: "map (\<lambda>r. (j_id r, retry_count r, max_retries r))
       (jobs (w_repo (processJob late_env snapshot_B
     \<lparr>w_repo = \<lparr>jobs = [\<lparr>j_id = ''j'', tenant_id = ''u'', idempotency_key = None,
               payload = ''fail'', status = StatusPending, max_retries = 1, retry_count = 1,
               leased_at = Some 41, lease_expires_at = Some 71, created_at = 1,
               updated_at = 43\<rparr>], dead_letter_jobs = []\<rparr>,
      w_metrics = IncrementRetriedJobs NewMetrics\<rparr>))) = [(''j'', 2, 1)]"
    by (simp add: processJob_def handleJobFailure_def IncrementRetryCount_def UpdateJobStatus_def
          late_env_def snapshot_B_def u)
  from 1 2 a b pa pb show ?thesis by simp
qed

text \<open>
  C2 (amended). In every reachable store, under any interleaving of submissions and
  workers, every row has 0 \<le> retry_count. CreateJob stores each admitted job with
  retry_count 0 and with max_retries as the request gives it (3 when absent), without a
  check, so retry_count \<le> max_retries holds at creation exactly when that value is not
  negative; with it absent or at least 0, CreateJob keeps 0 \<le> retry_count \<le> max_retries
  on every row. A worker transition keeps that bound on every row of a table with
  distinct ids whenever the job it processes still agrees with the stored row in
  retry_count and max_retries, as in a round that processes the job it has just leased:
  it increments only a row below its max_retries and moves the job to the DLQ
  otherwise.
\<close>

theorem C2_retry_bound:
  "(reachable s L \<longrightarrow> (\<forall>r \<in> set (jobs s). 0 \<le> retry_count r)) \<and>
   (jobs (repo (snd (JobService_CreateJob env req svc))) = jobs (repo svc) \<or>
    (\<exists>row. jobs (repo (snd (JobService_CreateJob env req svc))) = jobs (repo svc) @ [row] \<and>
           retry_count row = 0 \<and>
           max_retries row = (case req_MaxRetries req of None \<Rightarrow> 3 | Some m \<Rightarrow> m))) \<and>
   (retry_inv (repo svc) \<and> (\<forall>m. req_MaxRetries req = Some m \<longrightarrow> 0 \<le> m) \<longrightarrow>
      retry_inv (repo (snd (JobService_CreateJob env req svc)))) \<and>
   (retry_inv (w_repo w) \<and>
    (\<forall>r \<in> set (jobs (w_repo w)). j_id r = ID job \<longrightarrow>
        retry_count r = RetryCount job \<and> max_retries r = MaxRetries job) \<longrightarrow>
      retry_inv (w_repo (processJob wenv job w))) \<and>
   (retry_inv (w_repo w) \<longrightarrow> retry_inv (w_repo (ProcessJobs_round io tie now d wenv w)))"
proof -
  have c1: "reachable s L \<longrightarrow> (\<forall>r \<in> set (jobs s). 0 \<le> retry_count r)"
    using reachable_rows [of s L] by blast
  have c2: "jobs (repo (snd (JobService_CreateJob env req svc))) = jobs (repo svc) \<or>
    (\<exists>row. jobs (repo (snd (JobService_CreateJob env req svc))) = jobs (repo svc) @ [row] \<and>
           retry_count row = 0 \<and>
           max_retries row = (case req_MaxRetries req of None \<Rightarrow> 3 | Some m \<Rightarrow> m))"
    using admitted_row [of env req svc] by blast
  have c3: "retry_inv (repo svc) \<and> (\<forall>m. req_MaxRetries req = Some m \<longrightarrow> 0 \<le> m) \<longrightarrow>
      retry_inv (repo (snd (JobService_CreateJob env req svc)))"
    using retry_inv_submit [of svc req env] by blast
  have c4: "retry_inv (w_repo w) \<and>
    (\<forall>r \<in> set (jobs (w_repo w)). j_id r = ID job \<longrightarrow>
        retry_count r = RetryCount job \<and> max_retries r = MaxRetries job) \<longrightarrow>
      retry_inv (w_repo (processJob wenv job w))"
    using retry_inv_processJob [of w job wenv] by blast
  have c5: "retry_inv (w_repo w) \<longrightarrow> retry_inv (w_repo (ProcessJobs_round io tie now d wenv w))"
    using retry_inv_round [of w io tie now d wenv] by blast
  from c1 c2 c3 c4 c5 show ?thesis by (intro conjI)
qed

theorem C2_witness:
  "reachable (repo (snd (JobService_CreateJob ex_env zero_req svc0))) {} \<and>
   map (\<lambda>r. (j_id r, retry_count r, max_retries r))
       (jobs (repo (snd (JobService_CreateJob ex_env zero_req svc0)))) = [(''b'', 0, 0)] \<and>
   list_all (\<lambda>r. 0 \<le> retry_count r)
     (jobs (repo (snd (JobService_CreateJob ex_env zero_req svc0)))) \<and>
   retry_inv (repo (snd (JobService_CreateJob ex_env zero_req svc0))) \<and>
   retry_inv (w_repo worker0) \<and>
   retry_inv (w_repo (processJob penv job_f worker0)) \<and>
   retry_inv (w_repo (ProcessJobs_round None 0 (20 * Second) (30 * Second) penv worker0))"
proof -
  let ?s = "repo (snd (JobService_CreateJob ex_env zero_req svc0))"
  have r0: "reachable (repo svc0) {}" by (simp add: svc0_def reachable.start)
  have i0: "retry_inv (repo svc0)" by (simp add: svc0_def retry_inv_def)
  have ok: "\<forall>m. req_MaxRetries zero_req = Some m \<longrightarrow> 0 \<le> m" by (simp add: zero_req_def)
  have r1: "reachable ?s {}" by (rule reachable.submit [OF r0])
  have rows: "map (\<lambda>r. (j_id r, retry_count r, max_retries r)) (jobs ?s) = [(''b'', 0, 0)]"
    by (simp add: JobService_CreateJob_def JobService_CreateJob_insert_def CheckSubmissionRate_def
        GetRunningJobsCountByTenant_def CheckConcurrentLimit_def CreateJob_def insert_job_def
        Let_def ex_env_def zero_req_def svc0_def NewRateLimiter_def)
  have w0: "retry_inv (w_repo worker0)"
    by (simp add: retry_inv_def worker0_def row_b_def row_c_def row_f_def)
  have snap: "\<forall>r \<in> set (jobs (w_repo worker0)). j_id r = ID job_f \<longrightarrow>
        retry_count r = RetryCount job_f \<and> max_retries r = MaxRetries job_f"
    by (simp add: worker0_def row_b_def row_c_def row_f_def job_f_def)
  note c2 = C2_retry_bound [where s = ?s and L = "{}" and svc = svc0 and req = zero_req
      and env = ex_env and w = worker0 and job = job_f and io = None and tie = 0
      and now = "20 * Second" and d = "30 * Second" and wenv = penv]
  from c2 r1 have "\<forall>r \<in> set (jobs ?s). 0 \<le> retry_count r" by blast
  then have b: "list_all (\<lambda>r. 0 \<le> retry_count r) (jobs ?s)"
    by (simp add: list_all_iff)
  from c2 i0 ok have i1: "retry_inv ?s" by blast
  from c2 w0 snap have w1: "retry_inv (w_repo (processJob penv job_f worker0))" by blast
  from c2 w0
  have w2: "retry_inv (w_repo (ProcessJobs_round None 0 (20 * Second) (30 * Second) penv worker0))"
    by blast
  from r1 rows b i1 w0 w1 w2 show ?thesis by (intro conjI)
qed

section \<open>Idempotency keys in the store\<close>

lemma CreateJob_keyless_never_duplicate:
  "IdempotencyKey job = [] \<Longrightarrow>
   fst (CreateJob f now job s) \<noteq> Some (ErrDuplicateIdempotencyKey t k)"
  by (auto simp: CreateJob_def Let_def insert_job_def split: sum.splits)

lemma CreateJob_keyless_stored_null:
  assumes "IdempotencyKey job = []" "ID job \<notin> j_id ` set (jobs s)"
  shows "\<exists>row. CreateJob False now job s =
           (None, job\<lparr>CreatedAt := now, UpdatedAt := now\<rparr>, s\<lparr>jobs := jobs s @ [row]\<rparr>) \<and>
           j_id row = ID job \<and> tenant_id row = TenantID job \<and> idempotency_key row = None"
  using assms by (auto simp: CreateJob_def Let_def insert_job_def image_iff)

lemma CreateJob_duplicate_iff:
  assumes "ID job \<notin> j_id ` set (jobs s)"
  shows "fst (CreateJob f now job s) = Some (ErrDuplicateIdempotencyKey t k) \<longleftrightarrow>
         \<not> f \<and> t = TenantID job \<and> k = IdempotencyKey job \<and> k \<noteq> [] \<and>
         (\<exists>q \<in> set (jobs s). tenant_id q = t \<and> idempotency_key q = Some k)"
  using assms by (cases f) (auto simp: CreateJob_def Let_def insert_job_def image_iff)

lemma CreateJob_error_unchanged:
  "fst (CreateJob f now job s) \<noteq> None \<Longrightarrow> snd (snd (CreateJob f now job s)) = s"
  by (auto simp: CreateJob_def Let_def split: sum.splits if_splits)

text \<open>
  C7. CreateJob run on a job with a new id (as uuid.New gives it). It fails with
  DuplicateIdempotencyKey(t, k) exactly when the database call itself does not fail, t
  and k are the job's tenant and key, the key is not empty and some row of that tenant has
  that key; the store is then unchanged. A job with an empty key never gets that error,
  and (without a failure of the database call) it is stored with a NULL key, whatever
  keyless rows of that tenant the table already holds.
\<close>

theorem C7_duplicate_key_exactly_on_conflict:
  assumes "ID job \<notin> j_id ` set (jobs s)"
  shows "(fst (CreateJob f now job s) = Some (ErrDuplicateIdempotencyKey t k) \<longleftrightarrow>
            \<not> f \<and> t = TenantID job \<and> k = IdempotencyKey job \<and> k \<noteq> [] \<and>
            (\<exists>q \<in> set (jobs s). tenant_id q = t \<and> idempotency_key q = Some k)) \<and>
         (fst (CreateJob f now job s) = Some (ErrDuplicateIdempotencyKey t k) \<longrightarrow>
            snd (snd (CreateJob f now job s)) = s) \<and>
         (IdempotencyKey job = [] \<longrightarrow>
            fst (CreateJob f now job s) \<noteq> Some (ErrDuplicateIdempotencyKey t k) \<and>
            (\<exists>row. CreateJob False now job s =
                     (None, job\<lparr>CreatedAt := now, UpdatedAt := now\<rparr>,
                      s\<lparr>jobs := jobs s @ [row]\<rparr>) \<and>
                   j_id row = ID job \<and> tenant_id row = TenantID job \<and>
                   idempotency_key row = None))"
proof (intro conjI impI)
  show "fst (CreateJob f now job s) = Some (ErrDuplicateIdempotencyKey t k) \<longleftrightarrow>
            \<not> f \<and> t = TenantID job \<and> k = IdempotencyKey job \<and> k \<noteq> [] \<and>
            (\<exists>q \<in> set (jobs s). tenant_id q = t \<and> idempotency_key q = Some k)"
    by (rule CreateJob_duplicate_iff [OF assms])
next
  assume "fst (CreateJob f now job s) = Some (ErrDuplicateIdempotencyKey t k)"
  then show "snd (snd (CreateJob f now job s)) = s"
    by (simp add: CreateJob_error_unchanged)
next
  assume "IdempotencyKey job = []"
  then show "fst (CreateJob f now job s) \<noteq> Some (ErrDuplicateIdempotencyKey t k)"
    by (rule CreateJob_keyless_never_duplicate)
next
  assume "IdempotencyKey job = []"
  then show "\<exists>row. CreateJob False now job s =
                     (None, job\<lparr>CreatedAt := now, UpdatedAt := now\<rparr>,
                      s\<lparr>jobs := jobs s @ [row]\<rparr>) \<and>
                   j_id row = ID job \<and> tenant_id row = TenantID job \<and>
                   idempotency_key row = None"
    using assms by (rule CreateJob_keyless_stored_null)
qed

theorem C7_witness:
  "CreateJob False (20 * Second) key_job ex_store =
     (Some (ErrDuplicateIdempotencyKey ''t'' ''k1''),
      key_job\<lparr>CreatedAt := 20 * Second, UpdatedAt := 20 * Second\<rparr>, ex_store) \<and>
   map (\<lambda>r. (j_id r, tenant_id r, idempotency_key r))
       (jobs (snd (snd (CreateJob False (20 * Second) keyless_job keyless_store))))
     = [(''a'', ''t'', Some ''k1''), (''n1'', ''t'', None), (''n2'', ''t'', None)] \<and>
   fst (CreateJob False (20 * Second) keyless_job keyless_store) = None"
proof -
  have f1: "ID key_job \<notin> j_id ` set (jobs ex_store)"
    by (simp add: key_job_def ex_store_def ex_row_def)
  have conflict: "\<exists>q \<in> set (jobs ex_store). tenant_id q = ''t'' \<and> idempotency_key q = Some ''k1''"
    by (simp add: ex_store_def ex_row_def)
  note c7 = C7_duplicate_key_exactly_on_conflict [OF f1, of False "20 * Second" "''t''" "''k1''"]
  from c7 conflict have d: "fst (CreateJob False (20 * Second) key_job ex_store) =
      Some (ErrDuplicateIdempotencyKey ''t'' ''k1'')"
    by (simp add: key_job_def)
  with c7 have u: "snd (snd (CreateJob False (20 * Second) key_job ex_store)) = ex_store"
    by blast
  have j: "fst (snd (CreateJob False (20 * Second) key_job ex_store)) =
      key_job\<lparr>CreatedAt := 20 * Second, UpdatedAt := 20 * Second\<rparr>"
    by (simp add: CreateJob_def Let_def split: sum.split)
  from d u j have 1: "CreateJob False (20 * Second) key_job ex_store =
     (Some (ErrDuplicateIdempotencyKey ''t'' ''k1''),
      key_job\<lparr>CreatedAt := 20 * Second, UpdatedAt := 20 * Second\<rparr>, ex_store)"
    by (simp add: prod_eq_iff)
  have f2: "ID keyless_job \<notin> j_id ` set (jobs keyless_store)"
    by (simp add: keyless_job_def keyless_store_def ex_row_def)
  have e: "IdempotencyKey keyless_job = []" by (simp add: keyless_job_def)
  from C7_duplicate_key_exactly_on_conflict [OF f2, of False "20 * Second"] e
  obtain row where r: "CreateJob False (20 * Second) keyless_job keyless_store =
                     (None, keyless_job\<lparr>CreatedAt := 20 * Second, UpdatedAt := 20 * Second\<rparr>,
                      keyless_store\<lparr>jobs := jobs keyless_store @ [row]\<rparr>)"
      "j_id row = ID keyless_job" "tenant_id row = TenantID keyless_job"
      "idempotency_key row = None"
    by blast
  from r have 2: "map (\<lambda>r. (j_id r, tenant_id r, idempotency_key r))
       (jobs (snd (snd (CreateJob False (20 * Second) keyless_job keyless_store))))
     = [(''a'', ''t'', Some ''k1''), (''n1'', ''t'', None), (''n2'', ''t'', None)]"
    by (simp add: keyless_store_def keyless_job_def ex_row_def)
  from r have 3: "fst (CreateJob False (20 * Second) keyless_job keyless_store) = None"
    by simp
  from 1 2 3 show ?thesis by (intro conjI)
qed

text \<open>
  Why the id has to be new: an INSERT that fails on the primary key is reported by SQLite
  as a failed UNIQUE constraint too, and CreateJob takes it for a key conflict.
\<close>

lemma CreateJob_taken_id:
  "CreateJob False (20 * Second) dup_job ex_store =
     (Some (ErrDuplicateIdempotencyKey ''t'' ''k2''),
      dup_job\<lparr>CreatedAt := 20 * Second, UpdatedAt := 20 * Second\<rparr>, ex_store)"
  by (simp add: CreateJob_def Let_def insert_job_def dup_job_def ex_store_def ex_row_def)

end
